theory Spec2Isabelle
  imports Main "HOL-Library.AList"
begin

section \<open>Python values used by EC2ICManager.py\<close>

text \<open>
  Exceptions are values. The source distinguishes \<open>FileNotFoundError\<close> from every other
  \<open>Exception\<close> (its handlers are \<open>except FileNotFoundError\<close> and \<open>except Exception\<close>);
  the argument is the text of \<open>str(e)\<close>.
\<close>

datatype exn =
    FileNotFoundError string
  | ValueError string
  | IndexError string
  | OtherException string

fun exn_str :: "exn \<Rightarrow> string" where
  "exn_str (FileNotFoundError m) = m"
| "exn_str (ValueError m) = m"
| "exn_str (IndexError m) = m"
| "exn_str (OtherException m) = m"

fun is_file_not_found :: "exn \<Rightarrow> bool" where
  "is_file_not_found (FileNotFoundError m) = True"
| "is_file_not_found x = False"

text \<open>\<open>platform.system()\<close>: the source tests for "Windows", then "Darwin", else the Linux branch.\<close>

datatype platform = Windows | Darwin | Linux

subsection \<open>Strings\<close>

text \<open>\<open>str(n)\<close> for an integer: decimal digits, a minus sign for a negative number.\<close>

definition digit_char :: "nat \<Rightarrow> char" where
  "digit_char d = ''0123456789'' ! d"

fun str_nat :: "nat \<Rightarrow> string" where
  "str_nat n = (if n < 10 then [digit_char n] else str_nat (n div 10) @ [digit_char (n mod 10)])"

declare str_nat.simps [simp del]

definition str_int :: "int \<Rightarrow> string" where
  "str_int i = (if i < 0 then CHR ''-'' # str_nat (nat (- i)) else str_nat (nat i))"

text \<open>
  \<open>s.strip()\<close>: leading and trailing whitespace removed. The characters are those for which
  \<open>str.isspace\<close> holds among the code points below 256.
\<close>

definition py_isspace :: "char \<Rightarrow> bool" where
  "py_isspace c = ((of_char c :: nat) \<in> {9, 10, 11, 12, 13, 28, 29, 30, 31, 32, 133, 160})"

definition strip :: "string \<Rightarrow> string" where
  "strip s = rev (dropWhile py_isspace (rev (dropWhile py_isspace s)))"

text \<open>\<open>sub in s\<close> for strings: \<open>sub\<close> occurs as a contiguous substring of \<open>s\<close>.\<close>

fun starts_with :: "string \<Rightarrow> string \<Rightarrow> bool" where
  "starts_with [] s = True"
| "starts_with (c # cs) [] = False"
| "starts_with (c # cs) (d # ds) = (c = d \<and> starts_with cs ds)"

fun str_contains :: "string \<Rightarrow> string \<Rightarrow> bool" where
  "str_contains sub [] = (sub = [])"
| "str_contains sub (c # cs) = (starts_with sub (c # cs) \<or> str_contains sub cs)"

subsection \<open>Sequences and dictionaries\<close>

text \<open>
  \<open>xs[i]\<close> for a constant index \<open>i \<ge> 0\<close>: an index past the end raises \<open>IndexError\<close>.
\<close>

definition py_index :: "'a list \<Rightarrow> nat \<Rightarrow> exn + 'a" where
  "py_index xs i = (if i < length xs then Inr (xs ! i) else Inl (IndexError ''list index out of range''))"

text \<open>
  \<open>random.randint(a, b)\<close> is \<open>randrange(a, b + 1)\<close>: with \<open>width = b + 1 - a\<close>, it returns
  \<open>a + _randbelow(width)\<close> when \<open>width > 0\<close> and raises \<open>ValueError\<close> otherwise. The generator's
  draw is the parameter \<open>r\<close>, reduced below the width.
\<close>

definition randbelow :: "nat \<Rightarrow> int \<Rightarrow> int" where
  "randbelow r width = int r mod width"

definition randint :: "nat \<Rightarrow> int \<Rightarrow> int \<Rightarrow> exn + int" where
  "randint r a b =
     (let width = b + 1 - a
      in if width > 0 then Inr (a + randbelow r width)
         else Inl (ValueError ''empty range for randrange()''))"

text \<open>Truthiness of \<open>self.current_profile\<close>, which is \<open>None\<close> or a string.\<close>

fun truthy :: "string option \<Rightarrow> bool" where
  "truthy None = False"
| "truthy (Some p) = (p \<noteq> [])"

text \<open>
  A sequence of strings as Python compares it: the tuples that the tree widget returns are
  never equal to the lists that \<open>json.load\<close> builds, whatever their items.
\<close>

datatype pyseq = PyTuple "string list" | PyList "string list"

fun items :: "pyseq \<Rightarrow> string list" where
  "items (PyTuple xs) = xs"
| "items (PyList xs) = xs"

section \<open>The application state and its environment\<close>

text \<open>
  \<open>self.settings\<close>: a dictionary with four fixed keys. \<open>saved_instances\<close> is a dictionary
  from profile names to lists of instance rows; it is kept in insertion order, as Python
  keeps it, and \<open>AList.update\<close> is the assignment \<open>d[k] = v\<close>.
\<close>

record settings =
  rdp_client :: string
  default_profile :: string
  saved_instances :: "(string \<times> pyseq list) list"
  local_port_range :: "int list"

text \<open>
  The configuration file as \<open>load_settings\<close> sees it: absent, present but rejected by
  \<open>open\<close> or \<open>json.load\<close> (with the exception raised), or present and holding a settings
  document.
\<close>

datatype config_file = NoFile | BadFile exn | GoodFile settings

datatype proc_status = Running | Exited int

record proc =
  cmd :: "string list"
  status :: proc_status

text \<open>
  What the code does to the outside, in order: status-bar updates (also those scheduled with
  \<open>root.after\<close>), message boxes, \<open>print\<close>, \<open>time.sleep\<close>, every \<open>subprocess.Popen\<close> call with
  the exception it raised if any, \<open>terminate()\<close> calls, writes of the settings file, the
  settings dialog, the login collaborator, and an exception that leaves the worker thread
  (the interpreter reports it and the thread ends).
\<close>

datatype effect =
    SetStatus string
  | ShowWarning string string
  | ShowError string string
  | ShowInfo string string
  | Print string
  | Sleep nat
  | PopenCall "string list" "exn option"
  | Terminate nat
  | DumpSettings settings "exn option"
  | OpenSettings
  | SsoLogin "string list"
  | Uncaught exn

type_synonym tree_item = "string list \<times> string list"

text \<open>
  The fields of \<open>AwsRdpConnect\<close> that the modelled methods read or write, followed by the
  part of the machine they act on: the configuration file, the table of spawned processes
  (a process handle is its index), the files written, and the effects so far.
  \<open>selection\<close> is the row \<open>self.tree.selection()[0]\<close>, as (values, tags), when a row is selected.
\<close>

record app =
  aws_profiles :: "string list"
  current_profile :: "string option"
  profile_var :: string
  tunnel_process :: "nat option"
  app_settings :: settings
  tree_items :: "tree_item list"
  selection :: "tree_item option"
  config_file :: config_file
  procs :: "proc list"
  files :: "(string \<times> string) list"
  trace :: "effect list"

text \<open>
  What the outside answers during one call: the platform, paths, which \<open>Popen\<close> commands
  fail to spawn, whether the new tunnel process has exited by the end of the two-second
  sleep (and with which code), the decoded text of its error stream, which directory
  creations and file writes fail, the output of \<open>which\<close>, the random generator's draw,
  what \<open>terminate()\<close> raises on a running process if anything, and whether a process that
  was sent the termination signal has exited by the time it is polled next.
\<close>

record env =
  system :: platform
  home :: string
  environ_TEMP :: "string option"
  path_join :: "string \<Rightarrow> string \<Rightarrow> string"
  path_exists :: "string \<Rightarrow> bool"
  popen_exn :: "string list \<Rightarrow> exn option"
  tunnel_exit :: "int option"
  tunnel_stderr :: "exn + string"
  makedirs_exn :: "string \<Rightarrow> exn option"
  open_write_exn :: "string \<Rightarrow> exn option"
  which_output :: "string \<Rightarrow> string option"
  entropy :: nat
  terminate_exn :: "exn option"
  terminate_reaped :: bool

definition emit :: "effect list \<Rightarrow> app \<Rightarrow> app" where
  "emit es s = s\<lparr>trace := trace s @ es\<rparr>"

text \<open>\<open>__init__\<close>, lines 29-40: the fields before \<open>load_settings\<close> runs.\<close>

definition default_settings :: settings where
  "default_settings =
     \<lparr>rdp_client = [], default_profile = [], saved_instances = [], local_port_range = [9800, 9900]\<rparr>"

definition init_app :: "config_file \<Rightarrow> app" where
  "init_app cf =
     \<lparr>aws_profiles = [], current_profile = None, profile_var = [], tunnel_process = None,
      app_settings = default_settings, tree_items = [], selection = None,
      config_file = cf, procs = [], files = [], trace = []\<rparr>"

subsection \<open>Processes\<close>

text \<open>
  \<open>subprocess.Popen(cmd)\<close>: raises, or adds a running process to the table and returns its
  handle.
\<close>

definition Popen :: "env \<Rightarrow> string list \<Rightarrow> app \<Rightarrow> (exn + nat) \<times> app" where
  "Popen e c s =
     (case popen_exn e c of
        Some x \<Rightarrow> (Inl x, emit [PopenCall c (Some x)] s)
      | None \<Rightarrow> (Inr (length (procs s)),
                 emit [PopenCall c None] (s\<lparr>procs := procs s @ [\<lparr>cmd = c, status = Running\<rparr>]\<rparr>)))"

text \<open>\<open>p.poll()\<close>: \<open>None\<close> while the process runs, its return code afterwards.\<close>

definition poll :: "app \<Rightarrow> nat \<Rightarrow> int option" where
  "poll s pid =
     (if pid < length (procs s)
      then (case status (procs s ! pid) of Running \<Rightarrow> None | Exited c \<Rightarrow> Some c)
      else Some 0)"

definition set_status :: "nat \<Rightarrow> proc_status \<Rightarrow> app \<Rightarrow> app" where
  "set_status pid st s = s\<lparr>procs := (procs s)[pid := (procs s ! pid)\<lparr>status := st\<rparr>]\<rparr>"

text \<open>
  A process ends by itself, with a return code. The code never waits for a process it has
  spawned; this is what the outside does to the table.
\<close>

definition process_exits :: "nat \<Rightarrow> int \<Rightarrow> app \<Rightarrow> app" where
  "process_exits pid c s = set_status pid (Exited c) s"

text \<open>
  \<open>p.terminate()\<close>: it polls first and does nothing to a process that has exited. To a
  running one it sends the termination signal, which may raise; it does not wait. Whether
  the process has exited (with the return code of SIGTERM) by the next poll is for the
  environment to say; otherwise it is still running then.
\<close>

definition terminate :: "env \<Rightarrow> nat \<Rightarrow> app \<Rightarrow> exn option \<times> app" where
  "terminate e pid s =
     (if poll s pid \<noteq> None then (None, emit [Terminate pid] s)
      else (case terminate_exn e of
              Some x \<Rightarrow> (Some x, emit [Terminate pid] s)
            | None \<Rightarrow>
                (None, emit [Terminate pid]
                         (if terminate_reaped e then set_status pid (Exited (- 15)) s else s))))"

text \<open>
  \<open>time.sleep(2)\<close> after the tunnel is started (line 511): by its end the new process has
  exited or not, as the environment says.
\<close>

definition sleep_grace :: "env \<Rightarrow> nat \<Rightarrow> app \<Rightarrow> app" where
  "sleep_grace e pid s =
     emit [Sleep 2] (case tunnel_exit e of None \<Rightarrow> s | Some c \<Rightarrow> set_status pid (Exited c) s)"

section \<open>Settings: \<open>load_settings\<close>, \<open>save_settings\<close>, \<open>detect_rdp_client\<close>\<close>

definition config_dir :: "env \<Rightarrow> string" where
  "config_dir e = path_join e (home e) ''.aws_rdp_connect''"

definition config_path :: "env \<Rightarrow> string" where
  "config_path e = path_join e (config_dir e) ''config.json''"

text \<open>
  What \<open>json.load\<close> reads back after \<open>json.dump\<close>: tuples are written as arrays, and arrays
  are read as lists.
\<close>

definition json_dump :: "settings \<Rightarrow> settings" where
  "json_dump st =
     st\<lparr>saved_instances := map (\<lambda>(p, rows). (p, map (\<lambda>r. PyList (items r)) rows)) (saved_instances st)\<rparr>"

text \<open>Lines 144-150. A failed \<open>open\<close> leaves the file as it was and shows a warning.\<close>

definition save_settings :: "env \<Rightarrow> app \<Rightarrow> app" where
  "save_settings e s =
     (case open_write_exn e (config_path e) of
        Some x \<Rightarrow>
          emit [DumpSettings (app_settings s) (Some x),
                ShowWarning ''Settings Error'' (''Failed to save settings: '' @ exn_str x)] s
      | None \<Rightarrow>
          emit [DumpSettings (app_settings s) None]
            (s\<lparr>config_file := GoodFile (json_dump (app_settings s))\<rparr>))"

text \<open>
  Lines 164-173, the loop over the two client names: \<open>which\<close> failing (\<open>None\<close>) is swallowed
  by the bare \<open>except\<close>; the first non-empty stripped output is taken and the loop left.
\<close>

fun detect_which :: "env \<Rightarrow> string list \<Rightarrow> settings \<Rightarrow> settings" where
  "detect_which e [] st = st"
| "detect_which e (client # clients) st =
     (case which_output e client of
        None \<Rightarrow> detect_which e clients st
      | Some out \<Rightarrow>
          (let path = strip out
           in if path \<noteq> [] then st\<lparr>rdp_client := path\<rparr> else detect_which e clients st))"

text \<open>Lines 152-173.\<close>

definition detect_rdp_client :: "env \<Rightarrow> app \<Rightarrow> app" where
  "detect_rdp_client e s =
     (let st = app_settings s
      in s\<lparr>app_settings :=
           (case system e of
              Windows \<Rightarrow> st\<lparr>rdp_client := ''mstsc.exe''\<rparr>
            | Darwin \<Rightarrow>
                (if path_exists e ''/Applications/Microsoft Remote Desktop.app''
                 then st\<lparr>rdp_client := ''Microsoft Remote Desktop''\<rparr>
                 else st\<lparr>rdp_client := []\<rparr>)
            | Linux \<Rightarrow> detect_which e [''rdesktop'', ''xfreerdp''] st)\<rparr>)"

definition load_failed :: "exn \<Rightarrow> app \<Rightarrow> app" where
  "load_failed x s =
     emit [ShowWarning ''Settings Error'' (''Failed to load settings: '' @ exn_str x)] s"

text \<open>
  Lines 130-142. Every exception inside the \<open>try\<close> (from \<open>os.makedirs\<close>, \<open>open\<close> or
  \<open>json.load\<close>) ends in the one handler, which only shows a warning.
\<close>

definition load_settings :: "env \<Rightarrow> app \<Rightarrow> app" where
  "load_settings e s =
     (case makedirs_exn e (config_dir e) of
        Some x \<Rightarrow> load_failed x s
      | None \<Rightarrow>
          (case config_file s of
             GoodFile st \<Rightarrow> s\<lparr>app_settings := st\<rparr>
           | BadFile x \<Rightarrow> load_failed x s
           | NoFile \<Rightarrow> save_settings e (detect_rdp_client e s)))"

section \<open>Saved instances: \<open>load_saved_instances\<close>, \<open>save_instance\<close>\<close>

definition quote :: "string \<Rightarrow> string" where
  "quote s = [CHR 0x27] @ s @ [CHR 0x27]"

text \<open>Lines 348-364: the tree is emptied and refilled; each row carries its profile as tag.\<close>

definition load_saved_instances :: "app \<Rightarrow> app" where
  "load_saved_instances s =
     (let saved = saved_instances (app_settings s);
          rows = concat (map (\<lambda>(profile, instances).
                   if profile \<in> set (aws_profiles s)
                   then map (\<lambda>instance. (items instance, [profile])) instances
                   else []) saved);
          prints = concat (map (\<lambda>(profile, instances).
                   if profile \<in> set (aws_profiles s) then []
                   else [Print (''Warning: Profile '' @ quote profile
                                @ '' for saved instances not found in AWS config. Skipping.'')]) saved)
      in emit prints (s\<lparr>tree_items := rows, selection := None\<rparr>))"

text \<open>Lines 339-346.\<close>

definition get_selected_instance :: "app \<Rightarrow> pyseq option" where
  "get_selected_instance s = (case selection s of None \<Rightarrow> None | Some (vals, tags) \<Rightarrow> Some (PyTuple vals))"

text \<open>The list stored under a key of \<open>saved_instances\<close> (the key is there when it is read).\<close>

definition saved_for :: "string \<Rightarrow> settings \<Rightarrow> pyseq list" where
  "saved_for p st = (case map_of (saved_instances st) p of None \<Rightarrow> [] | Some rows \<Rightarrow> rows)"

definition set_saved :: "string \<Rightarrow> pyseq list \<Rightarrow> app \<Rightarrow> app" where
  "set_saved p rows s =
     s\<lparr>app_settings := (app_settings s)\<lparr>saved_instances :=
          AList.update p rows (saved_instances (app_settings s))\<rparr>\<rparr>"

text \<open>
  Lines 367-394. The result is the exception that escapes, if any, and the state reached.
  The success message reads \<open>selected_instance[1]\<close>, which raises on a row of one value,
  after the row is stored and the file written.
\<close>

definition save_instance :: "env \<Rightarrow> app \<Rightarrow> exn option \<times> app" where
  "save_instance e s =
     (case get_selected_instance s of
        None \<Rightarrow> (None, emit [ShowWarning ''Warning'' ''Please select an instance first''] s)
      | Some selected_instance \<Rightarrow>
          (case items selected_instance of
             [] \<Rightarrow> (None, emit [ShowWarning ''Warning'' ''Please select an instance first''] s)
           | instance_name # rest \<Rightarrow>
               if \<not> truthy (current_profile s)
               then (None, emit [ShowWarning ''Warning'' ''Please select an AWS profile first''] s)
               else
                 (case current_profile s of
                    None \<Rightarrow> (None, s)
                  | Some p \<Rightarrow>
                      (let s1 = (if map_of (saved_instances (app_settings s)) p = None
                                 then set_saved p [] s else s)
                       in if selected_instance \<in> set (saved_for p (app_settings s1))
                          then (None, emit [ShowInfo ''Info''
                                  ''This instance is already saved for the current profile.''] s1)
                          else
                            (let s2 = set_saved p (saved_for p (app_settings s1) @ [selected_instance]) s1;
                                 s3 = save_settings e s2
                             in case py_index (items selected_instance) 1 of
                                  Inl x \<Rightarrow> (Some x, s3)
                                | Inr instance_id \<Rightarrow>
                                    (None, load_saved_instances
                                       (emit [ShowInfo ''Success''
                                          (''Instance '' @ instance_name @ '' ('' @ instance_id
                                           @ '') saved for profile '' @ p)] s3)))))))"

section \<open>Connecting: \<open>connect_rdp\<close> and \<open>setup_and_connect\<close>\<close>

text \<open>
  Lines 217-256, on the caller's side: the warning without a profile, else the status line
  and the start of the login thread with its command. What the login thread reports later
  is the login collaborator's business.
\<close>

definition aws_sso_login :: "app \<Rightarrow> app" where
  "aws_sso_login s =
     (case current_profile s of
        None \<Rightarrow> emit [ShowWarning ''Warning'' ''Please select an AWS profile first''] s
      | Some p \<Rightarrow>
          if p = [] then emit [ShowWarning ''Warning'' ''Please select an AWS profile first''] s
          else emit [SetStatus (''Logging in with AWS SSO using profile '' @ p @ ''...''),
                     SsoLogin [''aws'', ''sso'', ''login'', ''--profile'', p]] s)"

text \<open>\<open>str(x)\<close> inside an f-string for \<open>self.current_profile\<close>.\<close>

fun str_opt :: "string option \<Rightarrow> string" where
  "str_opt None = ''None''"
| "str_opt (Some p) = p"

text \<open>
  Lines 417-427: the profile for the connection, from the current profile, the row's tags and
  the known profiles, with the warning shown on the way. An empty first tag is falsy: it
  passes neither test.
\<close>

definition resolve_profile :: "string option \<Rightarrow> string list \<Rightarrow> string list \<Rightarrow> string option \<times> effect list" where
  "resolve_profile cur tags profiles =
     (case tags of
        [] \<Rightarrow> (cur, [])
      | saved_profile # other_tags \<Rightarrow>
          if saved_profile \<noteq> [] \<and> saved_profile \<in> set profiles then (Some saved_profile, [])
          else if saved_profile \<noteq> []
          then (cur, [ShowWarning ''Profile Not Found''
                  (''Saved profile '' @ quote saved_profile
                   @ '' not found in your AWS configuration. Using current profile ''
                   @ quote (str_opt cur) @ '' instead.'')])
          else (cur, []))"

text \<open>Line 432: the test that decides the switch.\<close>

definition profile_switched :: "string option \<Rightarrow> string option \<Rightarrow> bool" where
  "profile_switched connection_profile cur = (truthy connection_profile \<and> connection_profile \<noteq> cur)"

text \<open>Lines 460-464: the local port, drawn between the two entries of the configured range.\<close>

definition allocate_port :: "nat \<Rightarrow> int list \<Rightarrow> exn + int" where
  "allocate_port r port_range =
     (case py_index port_range 0 of
        Inl x \<Rightarrow> Inl x
      | Inr lo \<Rightarrow> (case py_index port_range 1 of Inl x \<Rightarrow> Inl x | Inr hi \<Rightarrow> randint r lo hi))"

definition endpoint :: "int \<Rightarrow> string" where
  "endpoint local_port = ''localhost:'' @ str_int local_port"

definition tunnel_command :: "string \<Rightarrow> int \<Rightarrow> string \<Rightarrow> string list" where
  "tunnel_command instance_id local_port profile_to_use =
     [''aws'', ''ec2-instance-connect'', ''open-tunnel'',
      ''--instance-id'', instance_id,
      ''--remote-port'', ''3389'',
      ''--local-port'', str_int local_port,
      ''--profile'', profile_to_use]"

definition rdp_file_text :: "int \<Rightarrow> string" where
  "rdp_file_text local_port =
     ''full address:s:'' @ endpoint local_port @ [CHR 0x0A] @ ''prompt for credentials:i:1'' @ [CHR 0x0A]"

definition rdp_file_name :: "string \<Rightarrow> string" where
  "rdp_file_name instance_id = ''aws_connect_'' @ instance_id @ ''.rdp''"

text \<open>\<open>with open(rdp_file, "w") as f: f.write(...)\<close>: the exception raised, if any.\<close>

definition write_rdp_file :: "env \<Rightarrow> string \<Rightarrow> int \<Rightarrow> app \<Rightarrow> exn option \<times> app" where
  "write_rdp_file e rdp_file local_port s =
     (case open_write_exn e rdp_file of
        Some x \<Rightarrow> (Some x, s)
      | None \<Rightarrow> (None, s\<lparr>files := AList.update rdp_file (rdp_file_text local_port) (files s)\<rparr>))"

definition file_error :: "exn \<Rightarrow> app \<Rightarrow> app" where
  "file_error x s =
     emit [SetStatus (''Error creating RDP file: '' @ exn_str x),
           ShowError ''File Error'' (''Could not create temporary RDP file: '' @ exn_str x)] s"

text \<open>Lines 525-538, the Windows branch.\<close>

definition launch_windows :: "env \<Rightarrow> string \<Rightarrow> int \<Rightarrow> app \<Rightarrow> exn option \<times> app" where
  "launch_windows e instance_id local_port s =
     (let temp_dir = (case environ_TEMP e of Some t \<Rightarrow> t | None \<Rightarrow> home e);
          rdp_file = path_join e temp_dir (rdp_file_name instance_id)
      in case write_rdp_file e rdp_file local_port s of
           (Some x, s1) \<Rightarrow> (None, file_error x s1)
         | (None, s1) \<Rightarrow>
             (case Popen e [rdp_client (app_settings s1), rdp_file] s1 of
                (Inl x, s2) \<Rightarrow> (None, file_error x s2)
              | (Inr pid, s2) \<Rightarrow> (None, s2)))"

text \<open>The three commands of the macOS branch, lines 557, 562 and 567-570.\<close>

definition method1 :: "string \<Rightarrow> string list" where
  "method1 rdp_file = [''open'', rdp_file]"

definition method2 :: "string \<Rightarrow> string list" where
  "method2 rdp_file = [''open'', ''-a'', ''Microsoft Remote Desktop'', rdp_file]"

definition method3 :: "int \<Rightarrow> string list" where
  "method3 local_port = [''open'', ''rdp://full%20address=s:'' @ endpoint local_port]"

definition manual_message :: "int \<Rightarrow> string" where
  "manual_message local_port =
     ''Please open your RDP client manually and connect to '' @ endpoint local_port"

text \<open>
  Lines 555-576: the nested \<open>try\<close> blocks. A method fails when its \<open>Popen\<close> raises; the
  handler reports it and runs the next method.
\<close>

definition launch_methods :: "env \<Rightarrow> string \<Rightarrow> int \<Rightarrow> app \<Rightarrow> app" where
  "launch_methods e rdp_file local_port s =
     (case Popen e (method1 rdp_file) s of
        (Inr pid, s1) \<Rightarrow> s1
      | (Inl e1, s1) \<Rightarrow>
          (case Popen e (method2 rdp_file)
                  (emit [SetStatus (''Method 1 failed: '' @ exn_str e1 @ '', trying method 2...'')] s1) of
             (Inr pid, s2) \<Rightarrow> s2
           | (Inl e2, s2) \<Rightarrow>
               (case Popen e (method3 local_port)
                       (emit [SetStatus (''Method 2 failed: '' @ exn_str e2 @ '', trying method 3...'')] s2) of
                  (Inr pid, s3) \<Rightarrow> s3
                | (Inl e3, s3) \<Rightarrow>
                    emit [SetStatus ''All RDP launch methods failed'',
                          ShowInfo ''Manual Connection Required'' (manual_message local_port)] s3)))"

text \<open>
  Lines 541-579, the macOS branch. \<open>os.makedirs\<close> stands outside the inner \<open>try\<close>: its
  exception leaves the branch.
\<close>

definition darwin_temp_dir :: "env \<Rightarrow> string" where
  "darwin_temp_dir e = path_join e (home e) ''.aws_rdp_connect_temp''"

definition darwin_rdp_file :: "env \<Rightarrow> string \<Rightarrow> string" where
  "darwin_rdp_file e instance_id = path_join e (darwin_temp_dir e) (rdp_file_name instance_id)"

definition launch_darwin :: "env \<Rightarrow> string \<Rightarrow> int \<Rightarrow> app \<Rightarrow> exn option \<times> app" where
  "launch_darwin e instance_id local_port s =
     (case makedirs_exn e (darwin_temp_dir e) of
        Some x \<Rightarrow> (Some x, s)
      | None \<Rightarrow>
          (let rdp_file = darwin_rdp_file e instance_id
           in case write_rdp_file e rdp_file local_port s of
                (Some x, s1) \<Rightarrow> (None, file_error x s1)
              | (None, s1) \<Rightarrow> (None, launch_methods e rdp_file local_port s1)))"

text \<open>Lines 585-591: the argument for the client, chosen by the substrings of its path.\<close>

definition client_argument :: "string \<Rightarrow> int \<Rightarrow> string" where
  "client_argument client local_port =
     (if str_contains ''rdesktop'' client then endpoint local_port
      else if str_contains ''xfreerdp'' client then ''/v:'' @ endpoint local_port
      else endpoint local_port)"

text \<open>Lines 582-594, the Linux branch: only \<open>FileNotFoundError\<close> is handled here.\<close>

definition launch_linux :: "env \<Rightarrow> int \<Rightarrow> app \<Rightarrow> exn option \<times> app" where
  "launch_linux e local_port s =
     (let client = rdp_client (app_settings s)
      in case Popen e [client, client_argument client local_port] s of
           (Inr pid, s1) \<Rightarrow> (None, s1)
         | (Inl x, s1) \<Rightarrow>
             if is_file_not_found x
             then (None, emit [SetStatus (''RDP client not found at: '' @ client),
                               ShowError ''Error'' (''RDP client not found at: '' @ client
                                                    @ ''. Please check settings.'')] s1)
             else (Some x, s1))"

definition launch_client :: "env \<Rightarrow> string \<Rightarrow> int \<Rightarrow> app \<Rightarrow> exn option \<times> app" where
  "launch_client e instance_id local_port s =
     (case system e of
        Windows \<Rightarrow> launch_windows e instance_id local_port s
      | Darwin \<Rightarrow> launch_darwin e instance_id local_port s
      | Linux \<Rightarrow> launch_linux e local_port s)"

text \<open>
  Lines 607-610, inside the handler of \<open>except Exception\<close>: \<open>terminate()\<close> is called on the
  current handle only while its process runs, and the handle is then forgotten. Nothing
  catches an exception of \<open>terminate()\<close> here: it leaves the method, the handle kept.
\<close>

definition cleanup_tunnel :: "env \<Rightarrow> app \<Rightarrow> exn option \<times> app" where
  "cleanup_tunnel e s =
     (case tunnel_process s of
        None \<Rightarrow> (None, s)
      | Some pid \<Rightarrow>
          if poll s pid = None
          then (case terminate e pid s of
                  (Some x, s1) \<Rightarrow> (Some x, s1)
                | (None, s1) \<Rightarrow> (None, s1\<lparr>tunnel_process := None\<rparr>))
          else (None, s))"

text \<open>
  Lines 731-736 of \<open>main\<close>, after the main loop has ended: the handle is kept, and an
  exception of \<open>terminate()\<close> is caught and printed.
\<close>

definition main_cleanup :: "env \<Rightarrow> app \<Rightarrow> app" where
  "main_cleanup e s =
     (case tunnel_process s of
        None \<Rightarrow> s
      | Some pid \<Rightarrow>
          if poll s pid = None
          then (case terminate e pid s of
                  (Some x, s1) \<Rightarrow> emit [Print (''Error terminating tunnel process: '' @ exn_str x)] s1
                | (None, s1) \<Rightarrow> s1)
          else s)"

text \<open>
  Lines 481-511: the status line, the spawn of the tunnel, the assignment to
  \<open>self.tunnel_process\<close> and the two-second sleep. The new process is stored as soon as it
  is spawned; nothing is done to the process stored there before. The result is the
  exception of \<open>Popen\<close> or the new handle, with the state reached.
\<close>

definition start_tunnel :: "env \<Rightarrow> string \<Rightarrow> int \<Rightarrow> string \<Rightarrow> app \<Rightarrow> (exn + nat) \<times> app" where
  "start_tunnel e instance_id local_port profile_to_use s =
     (case Popen e (tunnel_command instance_id local_port profile_to_use)
             (emit [SetStatus (''Setting up tunnel to '' @ instance_id @ '' on port ''
                               @ str_int local_port @ '' using profile '' @ profile_to_use @ ''...'')] s) of
        (Inl x, s1) \<Rightarrow> (Inl x, s1)
      | (Inr pid, s1) \<Rightarrow> (Inr pid, sleep_grace e pid (s1\<lparr>tunnel_process := Some pid\<rparr>)))"

text \<open>
  Lines 481-597, the body of the \<open>try\<close>: the exception that leaves it, if any, and the state
  reached. After the sleep, a process that has exited has its error stream read, decoded
  and stripped, the failure is reported and the method returns; otherwise the client is
  launched.
\<close>

definition tunnel_and_launch :: "env \<Rightarrow> string \<Rightarrow> int \<Rightarrow> string \<Rightarrow> app \<Rightarrow> exn option \<times> app" where
  "tunnel_and_launch e instance_id local_port profile_to_use s =
     (case start_tunnel e instance_id local_port profile_to_use s of
        (Inl x, s1) \<Rightarrow> (Some x, s1)
      | (Inr pid, s2) \<Rightarrow>
          if poll s2 pid \<noteq> None
          then (case tunnel_stderr e of
                  Inl x \<Rightarrow> (Some x, s2)
                | Inr text \<Rightarrow>
                    (let stderr = strip text
                     in (None, emit [SetStatus (''Tunnel setup failed: '' @ stderr),
                                     ShowError ''Tunnel Error'' stderr] s2)))
          else (case launch_client e instance_id local_port
                       (emit [SetStatus ''Launching RDP client...''] s2) of
                  (Some x, s3) \<Rightarrow> (Some x, s3)
                | (None, s3) \<Rightarrow>
                    (None, emit [SetStatus (''Connected to '' @ instance_id @ '' on port ''
                                            @ str_int local_port)] s3)))"

definition cli_missing :: string where
  "cli_missing = ''AWS CLI not found. Please ensure it'' @ [CHR 0x27] @ ''s installed and in your PATH.''"

text \<open>
  Lines 478-610: the body with its two handlers. The method runs in a worker thread; the
  result is the state when it ends. An exception of \<open>terminate()\<close> in the second handler
  leaves the thread.
\<close>

definition setup_and_connect :: "env \<Rightarrow> string \<Rightarrow> int \<Rightarrow> string \<Rightarrow> app \<Rightarrow> app" where
  "setup_and_connect e instance_id local_port profile_to_use s =
     (case tunnel_and_launch e instance_id local_port profile_to_use s of
        (None, s1) \<Rightarrow> s1
      | (Some x, s1) \<Rightarrow>
          if is_file_not_found x
          then emit [SetStatus cli_missing, ShowError ''Error'' cli_missing] s1
          else (case cleanup_tunnel e
                        (emit [SetStatus (''Connection error: '' @ exn_str x),
                               ShowError ''Connection Error'' (exn_str x)] s1) of
                  (None, s2) \<Rightarrow> s2
                | (Some y, s2) \<Rightarrow> emit [Uncaught y] s2))"

text \<open>
  Lines 430-440: the switch to the connection profile, with the login it starts and the
  five-second sleep.
\<close>

definition switch_profile :: "string option \<Rightarrow> app \<Rightarrow> app" where
  "switch_profile connection_profile s =
     (if profile_switched connection_profile (current_profile s)
      then emit [Sleep 5]
             (aws_sso_login
                ((emit [ShowInfo ''Profile Switch''
                          (''Switching to profile: '' @ str_opt connection_profile @ '' for connection.'')] s)
                 \<lparr>profile_var := str_opt connection_profile, current_profile := connection_profile\<rparr>))
      else s)"

text \<open>
  Lines 397-475. The worker thread started at the end is run to its end here, so the result
  is the state once \<open>setup_and_connect\<close> has returned. An exception that escapes
  \<open>connect_rdp\<close> itself (an index past the end of the row or of the port range, the empty
  range of \<open>randint\<close>) is returned with the state reached.
\<close>

definition connect_rdp :: "env \<Rightarrow> app \<Rightarrow> exn option \<times> app" where
  "connect_rdp e s =
     (case selection s of
        None \<Rightarrow> (None, emit [ShowWarning ''Warning'' ''Please select an instance first''] s)
      | Some (vals, tags) \<Rightarrow>
          (case vals of
             [] \<Rightarrow> (None, emit [ShowWarning ''Warning'' ''Could not retrieve instance details''] s)
           | instance_name # rest \<Rightarrow>
               (case py_index vals 1 of
                  Inl x \<Rightarrow> (Some x, s)
                | Inr instance_id \<Rightarrow>
                    (let (connection_profile, warnings) =
                           resolve_profile (current_profile s) tags (aws_profiles s);
                         s1 = switch_profile connection_profile (emit warnings s)
                     in case current_profile s1 of
                          None \<Rightarrow> (None, emit [ShowWarning ''Warning''
                                     ''No AWS profile selected or available after potential switch.''] s1)
                        | Some profile \<Rightarrow>
                            if profile = []
                            then (None, emit [ShowWarning ''Warning''
                                    ''No AWS profile selected or available after potential switch.''] s1)
                            else if rdp_client (app_settings s1) = []
                            then (None, emit [ShowError ''Error''
                                    ''RDP client not configured. Please update in Settings.'',
                                    OpenSettings] s1)
                            else if system e \<noteq> Darwin \<and> \<not> path_exists e (rdp_client (app_settings s1))
                            then (None, emit [ShowError ''Error''
                                    ''RDP client not found. Please update path in Settings.'',
                                    OpenSettings] s1)
                            else
                              (case allocate_port (entropy e) (local_port_range (app_settings s1)) of
                                 Inl x \<Rightarrow> (Some x, s1)
                               | Inr local_port \<Rightarrow>
                                   (None, setup_and_connect e instance_id local_port profile
                                      (emit [SetStatus (''Connecting to '' @ instance_name @ '' (''
                                               @ instance_id @ '') using profile '' @ profile @ ''...'')]
                                         s1)))))))"

section \<open>Reading the effects of a call\<close>

text \<open>The effects that a call added, given the state before and the state after.\<close>

definition new_effects :: "app \<Rightarrow> app \<Rightarrow> effect list" where
  "new_effects s s' = drop (length (trace s)) (trace s')"

text \<open>The \<open>Popen\<close> calls among some effects, in order, each with its outcome.\<close>

fun attempts :: "effect list \<Rightarrow> (string list \<times> exn option) list" where
  "attempts [] = []"
| "attempts (PopenCall c r # es) = (c, r) # attempts es"
| "attempts (x # es) = attempts es"

text \<open>The processes that \<open>terminate()\<close> was called on, among some effects.\<close>

fun terminated :: "effect list \<Rightarrow> nat list" where
  "terminated [] = []"
| "terminated (Terminate pid # es) = pid # terminated es"
| "terminated (x # es) = terminated es"

text \<open>
  A concrete environment for the checks on inputs: a POSIX machine where every command
  spawns, every write succeeds, the tunnel stays up, and a process that is sent the
  termination signal has exited by the next poll.
\<close>

definition sample_env :: env where
  "sample_env =
     \<lparr>system = Linux, home = ''/home/user'', environ_TEMP = None,
      path_join = (\<lambda>a b. a @ ''/'' @ b), path_exists = (\<lambda>p. True),
      popen_exn = (\<lambda>c. None), tunnel_exit = None, tunnel_stderr = Inr [],
      makedirs_exn = (\<lambda>d. None), open_write_exn = (\<lambda>f. None),
      which_output = (\<lambda>c. None), entropy = 7,
      terminate_exn = None, terminate_reaped = True\<rparr>"

text \<open>A state whose current tunnel handle is process 0, in the given status.\<close>

definition with_tunnel :: "proc_status \<Rightarrow> app" where
  "with_tunnel st =
     (init_app NoFile)\<lparr>tunnel_process := Some 0,
                       procs := [\<lparr>cmd = tunnel_command ''i-0001'' 9800 ''dev'', status = st\<rparr>]\<rparr>"

text \<open>
  The effects of the launch of the client from a state, and the \<open>Popen\<close> calls among them,
  each with its outcome.
\<close>

definition launch_effects :: "env \<Rightarrow> string \<Rightarrow> int \<Rightarrow> app \<Rightarrow> effect list" where
  "launch_effects e instance_id local_port s =
     new_effects s (snd (launch_client e instance_id local_port s))"

definition launch_attempts :: "env \<Rightarrow> string \<Rightarrow> int \<Rightarrow> app \<Rightarrow> (string list \<times> exn option) list" where
  "launch_attempts e instance_id local_port s = attempts (launch_effects e instance_id local_port s)"

text \<open>
  Two connections in a row on the sample machine, where each tunnel stays up: the first to
  \<open>i-0001\<close> on port 9800, the second to \<open>i-0002\<close> on port 9801.
\<close>

definition connected_once :: app where
  "connected_once =
     setup_and_connect sample_env ''i-0001'' 9800 ''dev''
       ((init_app NoFile)\<lparr>app_settings := default_settings\<lparr>rdp_client := ''/usr/bin/xfreerdp''\<rparr>\<rparr>)"

definition connected_twice :: app where
  "connected_twice = setup_and_connect sample_env ''i-0002'' 9801 ''dev'' connected_once"

text \<open>
  A state reached from another by spawning processes and adding effects only: the process
  table is extended, the current handle is the same, and nothing was terminated.
\<close>

definition extends :: "app \<Rightarrow> app \<Rightarrow> bool" where
  "extends s s' =
     ((\<exists>ps. procs s' = procs s @ ps) \<and> tunnel_process s' = tunnel_process s
      \<and> (\<exists>es. trace s' = trace s @ es \<and> terminated es = []))"

text \<open>
  The sample machine with a tunnel that exits with code 1 during the two-second sleep,
  having written a line to its error stream.
\<close>

definition failing_tunnel_env :: env where
  "failing_tunnel_env = sample_env\<lparr>tunnel_exit := Some 1, tunnel_stderr := Inr (''boom'' @ [CHR 0x0A])\<rparr>"

text \<open>
  macOS machines for the checks on inputs, given by the \<open>Popen\<close> commands that fail: one where
  only the first launch method fails, one where every command fails, one where none does.
\<close>

definition darwin_env :: "(string list \<Rightarrow> exn option) \<Rightarrow> env" where
  "darwin_env p = sample_env\<lparr>system := Darwin, popen_exn := p\<rparr>"

definition first_fails :: "string list \<Rightarrow> exn option" where
  "first_fails c = (if c = [''open'', ''/home/user/.aws_rdp_connect_temp/aws_connect_i-0001.rdp'']
                    then Some (OtherException ''no handler'') else None)"

definition all_fail :: "string list \<Rightarrow> exn option" where
  "all_fail c = Some (OtherException ''no handler'')"

definition none_fail :: "string list \<Rightarrow> exn option" where
  "none_fail c = None"

text \<open>
  The sample machine where a process that is sent the termination signal is still running
  when it is polled next.
\<close>

definition slow_exit_env :: env where
  "slow_exit_env = sample_env\<lparr>terminate_reaped := False\<rparr>"

text \<open>
  A restart with a saved row: the settings file holds one row under the profile \<open>dev\<close>;
  the settings are loaded, the profile is selected, the saved rows are shown, and the user
  selects the row.
\<close>

definition sample_row :: "string list" where
  "sample_row = [''web'', ''i-0001'', ''running'', ''t3.micro'', ''10.0.0.1'']"

definition stored_settings :: settings where
  "stored_settings =
     default_settings\<lparr>rdp_client := ''/usr/bin/xfreerdp'',
                      saved_instances := [(''dev'', [PyList sample_row])]\<rparr>"

definition restarted_app :: app where
  "restarted_app =
     (let s0 = load_settings sample_env (init_app (GoodFile stored_settings));
          s1 = load_saved_instances
                 (s0\<lparr>aws_profiles := [''dev''], current_profile := Some ''dev'', profile_var := ''dev''\<rparr>)
      in s1\<lparr>selection := Some (sample_row, [''dev''])\<rparr>)"

section \<open>The port allocator\<close>

lemma randint_in_range:
  assumes "a \<le> b"
  shows "\<exists>v. randint r a b = Inr v \<and> a \<le> v \<and> v \<le> b"
proof -
  from assms have w: "0 < b + 1 - a" by simp
  have "int r mod (b + 1 - a) < b + 1 - a" using w by (rule pos_mod_bound)
  moreover have "0 \<le> int r mod (b + 1 - a)" using w by (rule pos_mod_sign)
  ultimately have "a \<le> a + int r mod (b + 1 - a) \<and> a + int r mod (b + 1 - a) \<le> b"
    by linarith
  then show ?thesis using w by (simp add: randint_def randbelow_def Let_def)
qed

text \<open>
  C2. For a port range whose first entry is below its second, the allocation returns a
  port, and the port lies between the two entries, both included, whatever the generator
  draws.
\<close>

theorem allocate_port_in_range:
  "lo < hi \<Longrightarrow> \<exists>v. allocate_port r (lo # hi # rest) = Inr v \<and> lo \<le> v \<and> v \<le> hi"
  using randint_in_range [of lo hi r]
  by (simp add: allocate_port_def py_index_def)

theorem allocate_port_in_range_witness:
  "(9800::int) < 9900 \<and> (\<exists>v. allocate_port 7 [9800, 9900] = Inr v \<and> 9800 \<le> v \<and> v \<le> 9900)"
  using allocate_port_in_range [of 9800 9900 7 "[]"] by simp

text \<open>
  C3, as stated, asks for a failure whenever min \<open>\<ge>\<close> max. With equal bounds the allocation
  returns that one port.
\<close>

theorem allocate_port_equal_bounds_counterexample:
  "(5000::int) \<ge> 5000 \<and> allocate_port 7 [5000, 5000] = Inr 5000"
  by (simp add: allocate_port_def py_index_def randint_def randbelow_def)

text \<open>
  C3, amended. The allocation fails exactly when min \<open>>\<close> max, and then with the
  \<open>ValueError\<close> of the empty range; with min \<open>=\<close> max it returns min.
\<close>

theorem allocate_port_fails_iff:
  "((\<exists>x. allocate_port r (lo # hi # rest) = Inl x) \<longleftrightarrow> hi < lo)
   \<and> (hi < lo \<longrightarrow> allocate_port r (lo # hi # rest) = Inl (ValueError ''empty range for randrange()''))
   \<and> (lo = hi \<longrightarrow> allocate_port r (lo # hi # rest) = Inr lo)"
  by (simp add: allocate_port_def py_index_def randint_def randbelow_def Let_def)

theorem allocate_port_fails_iff_witness:
  "allocate_port 3 [5000, 4000] = Inl (ValueError ''empty range for randrange()'')
   \<and> allocate_port 3 [5000, 5000] = Inr 5000"
  using allocate_port_fails_iff [of 3 5000 4000 "[]"] allocate_port_fails_iff [of 3 5000 5000 "[]"]
  by simp

section \<open>The profile for a connection\<close>

text \<open>
  C4. With active profile \<open>a\<close>, known profiles \<open>K\<close> and the tags of the selected row: a row
  whose tag \<open>t\<close> is a known profile connects under \<open>t\<close>, without a warning; a row whose tag is
  not known connects under \<open>a\<close> and the Profile Not Found warning is shown; a row without a tag
  connects under \<open>a\<close>; and the switch is made exactly when the profile for the connection
  differs from \<open>a\<close>. A tag is a non-empty string: the code tests its truth value, so the
  empty tag counts as no tag.
\<close>

theorem resolve_profile_effective:
  "(t \<noteq> [] \<and> t \<in> set K \<longrightarrow> resolve_profile a (t # ts) K = (Some t, []))
   \<and> (t \<noteq> [] \<and> t \<notin> set K \<longrightarrow>
        fst (resolve_profile a (t # ts) K) = a
        \<and> (\<exists>msg. snd (resolve_profile a (t # ts) K) = [ShowWarning ''Profile Not Found'' msg]))
   \<and> resolve_profile a [] K = (a, [])
   \<and> resolve_profile a ([] # ts) K = (a, [])
   \<and> (profile_switched (fst (resolve_profile a tags K)) a \<longleftrightarrow> fst (resolve_profile a tags K) \<noteq> a)"
  by (auto simp add: resolve_profile_def profile_switched_def split: list.splits)

theorem resolve_profile_effective_witness:
  "resolve_profile (Some ''dev'') [''prod''] [''prod'', ''dev''] = (Some ''prod'', [])
   \<and> profile_switched (fst (resolve_profile (Some ''dev'') [''prod''] [''prod'', ''dev''])) (Some ''dev'')
   \<and> fst (resolve_profile (Some ''dev'') [''stale''] [''prod'', ''dev'']) = Some ''dev''
   \<and> (\<exists>msg. snd (resolve_profile (Some ''dev'') [''stale''] [''prod'', ''dev''])
               = [ShowWarning ''Profile Not Found'' msg])
   \<and> \<not> profile_switched (fst (resolve_profile (Some ''dev'') [''stale''] [''prod'', ''dev''])) (Some ''dev'')"
  using resolve_profile_effective [of "''prod''" "[''prod'', ''dev'']" "Some ''dev''" "[]" "[''prod'']"]
        resolve_profile_effective [of "''stale''" "[''prod'', ''dev'']" "Some ''dev''" "[]" "[''stale'']"]
  by (simp add: profile_switched_def)

section \<open>Terminating the tunnel\<close>

lemma poll_emit [simp]: "poll (emit es s) pid = poll s pid"
  by (simp add: poll_def emit_def)

lemma poll_tunnel_process_update [simp]: "poll (s\<lparr>tunnel_process := h\<rparr>) pid = poll s pid"
  by (simp add: poll_def)

lemma poll_set_status:
  "poll (set_status pid st s) pid
     = (if pid < length (procs s) then (case st of Running \<Rightarrow> None | Exited c \<Rightarrow> Some c) else Some 0)"
  by (simp add: poll_def set_status_def)

lemma terminate_running:
  assumes "poll s pid = None"
  shows "terminate e pid s =
     (case terminate_exn e of
        Some x \<Rightarrow> (Some x, emit [Terminate pid] s)
      | None \<Rightarrow> (None, emit [Terminate pid]
                         (if terminate_reaped e then set_status pid (Exited (- 15)) s else s)))"
  using assms by (simp add: terminate_def)

lemma poll_None_less: "poll s pid = None \<Longrightarrow> pid < length (procs s)"
  by (simp add: poll_def split: if_splits)

text \<open>
  C8, as stated, has two terminations in a row leave the handle terminated, the second
  doing nothing. \<open>terminate()\<close> only sends the signal: where the process is still running
  at the next poll, the cleanup at exit, run twice, calls \<open>terminate()\<close> twice, and the
  process of the handle is running after both.
\<close>

theorem repeated_terminate_counterexample:
  "tunnel_process (with_tunnel Running) = Some 0
   \<and> terminate_exn slow_exit_env = None
   \<and> terminated (trace (main_cleanup slow_exit_env (main_cleanup slow_exit_env (with_tunnel Running))))
       = [0, 0]
   \<and> poll (main_cleanup slow_exit_env (main_cleanup slow_exit_env (with_tunnel Running))) 0 = None"
  by (simp add: main_cleanup_def terminate_def slow_exit_env_def sample_env_def with_tunnel_def
      init_app_def poll_def emit_def)

text \<open>
  C8, amended. Both places that terminate the tunnel (the cleanup at exit and the cleanup
  after an unexpected error) call \<open>terminate()\<close> only while \<open>poll()\<close> is \<open>None\<close>: with no handle,
  or with a handle whose process has exited, they change nothing, not even the effects.
  After the cleanup in the error handler has returned, the handle is forgotten and a second
  run changes nothing. The cleanup at exit on a running process calls \<open>terminate()\<close> once;
  when the process has exited by the next poll, a second run changes nothing; when it has
  not, the process is still running. An exception of \<open>terminate()\<close> is caught and printed by
  the cleanup at exit, and leaves the cleanup of the error handler.
\<close>

theorem cleanup_repeated:
  "(tunnel_process s = None \<or> tunnel_process s = Some pid \<and> poll s pid \<noteq> None \<longrightarrow>
        main_cleanup e s = s \<and> cleanup_tunnel e s = (None, s))
   \<and> (fst (cleanup_tunnel e s) = None \<longrightarrow>
        cleanup_tunnel e' (snd (cleanup_tunnel e s)) = (None, snd (cleanup_tunnel e s)))
   \<and> (tunnel_process s = Some pid \<and> poll s pid = None \<and> terminate_exn e = None \<longrightarrow>
        terminated (new_effects s (main_cleanup e s)) = [pid]
        \<and> (terminate_reaped e \<longrightarrow>
              poll (main_cleanup e s) pid = Some (- 15)
              \<and> main_cleanup e' (main_cleanup e s) = main_cleanup e s)
        \<and> (\<not> terminate_reaped e \<longrightarrow> poll (main_cleanup e s) pid = None))
   \<and> (tunnel_process s = Some pid \<and> poll s pid = None \<and> terminate_exn e = Some x \<longrightarrow>
        main_cleanup e s
          = emit [Terminate pid, Print (''Error terminating tunnel process: '' @ exn_str x)] s
        \<and> cleanup_tunnel e s = (Some x, emit [Terminate pid] s))"
proof (intro conjI impI)
  assume "tunnel_process s = None \<or> tunnel_process s = Some pid \<and> poll s pid \<noteq> None"
  then show "main_cleanup e s = s" and "cleanup_tunnel e s = (None, s)"
    by (auto simp add: main_cleanup_def cleanup_tunnel_def)
next
  assume "fst (cleanup_tunnel e s) = None"
  then show "cleanup_tunnel e' (snd (cleanup_tunnel e s)) = (None, snd (cleanup_tunnel e s))"
    by (auto simp add: cleanup_tunnel_def terminate_running split: option.splits if_splits)
next
  assume h: "tunnel_process s = Some pid \<and> poll s pid = None \<and> terminate_exn e = None"
  then have lt: "pid < length (procs s)"
    by (simp add: poll_None_less)
  from h show "terminated (new_effects s (main_cleanup e s)) = [pid]"
    by (simp add: main_cleanup_def terminate_running new_effects_def emit_def set_status_def)
  {
    assume r: "terminate_reaped e"
    from h r lt show p: "poll (main_cleanup e s) pid = Some (- 15)"
      by (simp add: main_cleanup_def terminate_running poll_set_status)
    have "tunnel_process (main_cleanup e s) = Some pid"
      using h r by (simp add: main_cleanup_def terminate_running emit_def set_status_def)
    with p show "main_cleanup e' (main_cleanup e s) = main_cleanup e s"
      by (simp add: main_cleanup_def [of e'])
  }
  {
    assume "\<not> terminate_reaped e"
    with h show "poll (main_cleanup e s) pid = None"
      by (simp add: main_cleanup_def terminate_running)
  }
next
  assume h: "tunnel_process s = Some pid \<and> poll s pid = None \<and> terminate_exn e = Some x"
  then show "main_cleanup e s
          = emit [Terminate pid, Print (''Error terminating tunnel process: '' @ exn_str x)] s"
    and "cleanup_tunnel e s = (Some x, emit [Terminate pid] s)"
    by (simp_all add: main_cleanup_def cleanup_tunnel_def terminate_running emit_def)
qed

theorem cleanup_repeated_witness:
  "tunnel_process (with_tunnel (Exited 1)) = Some 0
   \<and> poll (with_tunnel (Exited 1)) 0 \<noteq> None
   \<and> main_cleanup sample_env (with_tunnel (Exited 1)) = with_tunnel (Exited 1)
   \<and> cleanup_tunnel sample_env (with_tunnel (Exited 1)) = (None, with_tunnel (Exited 1))
   \<and> tunnel_process (with_tunnel Running) = Some 0
   \<and> poll (with_tunnel Running) 0 = None
   \<and> terminate_exn sample_env = None \<and> terminate_reaped sample_env
   \<and> poll (main_cleanup sample_env (with_tunnel Running)) 0 = Some (- 15)
   \<and> main_cleanup sample_env (main_cleanup sample_env (with_tunnel Running))
       = main_cleanup sample_env (with_tunnel Running)
   \<and> \<not> terminate_reaped slow_exit_env
   \<and> poll (main_cleanup slow_exit_env (with_tunnel Running)) 0 = None
   \<and> terminate_exn (sample_env\<lparr>terminate_exn := Some (OtherException ''denied'')\<rparr>)
       = Some (OtherException ''denied'')
   \<and> main_cleanup (sample_env\<lparr>terminate_exn := Some (OtherException ''denied'')\<rparr>) (with_tunnel Running)
       = emit [Terminate 0, Print (''Error terminating tunnel process: '' @ exn_str (OtherException ''denied''))]
           (with_tunnel Running)"
proof -
  have a: "tunnel_process (with_tunnel (Exited 1)) = Some 0 \<and> poll (with_tunnel (Exited 1)) 0 \<noteq> None"
    by (simp add: with_tunnel_def init_app_def poll_def)
  have b: "tunnel_process (with_tunnel Running) = Some 0 \<and> poll (with_tunnel Running) 0 = None"
    by (simp add: with_tunnel_def init_app_def poll_def)
  have c: "terminate_exn sample_env = None \<and> terminate_reaped sample_env"
    by (simp add: sample_env_def)
  have d: "terminate_exn slow_exit_env = None \<and> \<not> terminate_reaped slow_exit_env"
    by (simp add: slow_exit_env_def sample_env_def)
  have f: "terminate_exn (sample_env\<lparr>terminate_exn := Some (OtherException ''denied'')\<rparr>)
       = Some (OtherException ''denied'')"
    by simp
  from cleanup_repeated [of "with_tunnel (Exited 1)" 0 sample_env] a
  have g1: "main_cleanup sample_env (with_tunnel (Exited 1)) = with_tunnel (Exited 1)
            \<and> cleanup_tunnel sample_env (with_tunnel (Exited 1)) = (None, with_tunnel (Exited 1))"
    by simp
  from cleanup_repeated [of "with_tunnel Running" 0 sample_env sample_env] b c
  have g2: "poll (main_cleanup sample_env (with_tunnel Running)) 0 = Some (- 15)
            \<and> main_cleanup sample_env (main_cleanup sample_env (with_tunnel Running))
                = main_cleanup sample_env (with_tunnel Running)"
    by simp
  from cleanup_repeated [of "with_tunnel Running" 0 slow_exit_env] b d
  have g3: "poll (main_cleanup slow_exit_env (with_tunnel Running)) 0 = None"
    by simp
  from cleanup_repeated [of "with_tunnel Running" 0
         "sample_env\<lparr>terminate_exn := Some (OtherException ''denied'')\<rparr>" _ "OtherException ''denied''"]
       b f
  have g4: "main_cleanup (sample_env\<lparr>terminate_exn := Some (OtherException ''denied'')\<rparr>) (with_tunnel Running)
       = emit [Terminate 0, Print (''Error terminating tunnel process: '' @ exn_str (OtherException ''denied''))]
           (with_tunnel Running)"
    by simp
  from a b c d f g1 g2 g3 g4 show ?thesis
    by (intro conjI) (simp_all only: simp_thms)
qed

section \<open>Loading the settings\<close>

lemma app_settings_emit [simp]: "app_settings (emit es s) = app_settings s"
  by (simp add: emit_def)

lemma config_file_emit [simp]: "config_file (emit es s) = config_file s"
  by (simp add: emit_def)

lemma current_profile_emit [simp]: "current_profile (emit es s) = current_profile s"
  by (simp add: emit_def)

lemma trace_emit [simp]: "trace (emit es s) = trace s @ es"
  by (simp add: emit_def)

lemma app_settings_save_settings [simp]: "app_settings (save_settings e s) = app_settings s"
  by (simp add: save_settings_def split: option.splits)

text \<open>
  C9, as stated, has a malformed file rebuilt like a missing one. On Windows, where the guess
  is \<open>mstsc.exe\<close>, a file that \<open>json.load\<close> rejects leaves the client empty and the file as
  it was; the only effect is the warning.
\<close>

theorem load_settings_malformed_counterexample:
  "rdp_client (app_settings (load_settings (sample_env\<lparr>system := Windows\<rparr>)
       (init_app (BadFile (ValueError ''Expecting value''))))) = []
   \<and> rdp_client (app_settings (detect_rdp_client (sample_env\<lparr>system := Windows\<rparr>)
       (init_app (BadFile (ValueError ''Expecting value''))))) = ''mstsc.exe''
   \<and> config_file (load_settings (sample_env\<lparr>system := Windows\<rparr>)
       (init_app (BadFile (ValueError ''Expecting value'')))) = BadFile (ValueError ''Expecting value'')
   \<and> trace (load_settings (sample_env\<lparr>system := Windows\<rparr>)
       (init_app (BadFile (ValueError ''Expecting value''))))
       = [ShowWarning ''Settings Error'' ''Failed to load settings: Expecting value'']"
  by (simp add: load_settings_def load_failed_def detect_rdp_client_def sample_env_def init_app_def
      default_settings_def emit_def)

text \<open>
  C9, amended. When the settings directory can be made: a missing file has the client
  detected for the platform and the settings written; a file that cannot be read or parsed
  leaves the settings and the file as they were and shows a warning; a well-formed file's
  content replaces the settings.
\<close>

theorem load_settings_cases:
  "makedirs_exn e (config_dir e) = None \<Longrightarrow>
   (config_file s = NoFile \<longrightarrow>
      load_settings e s = save_settings e (detect_rdp_client e s)
      \<and> app_settings (load_settings e s) = app_settings (detect_rdp_client e s)
      \<and> (system e = Windows \<longrightarrow> rdp_client (app_settings (load_settings e s)) = ''mstsc.exe'')
      \<and> (open_write_exn e (config_path e) = None \<longrightarrow>
            config_file (load_settings e s) = GoodFile (json_dump (app_settings (detect_rdp_client e s)))))
   \<and> (config_file s = BadFile x \<longrightarrow>
      app_settings (load_settings e s) = app_settings s
      \<and> config_file (load_settings e s) = BadFile x
      \<and> new_effects s (load_settings e s)
          = [ShowWarning ''Settings Error'' (''Failed to load settings: '' @ exn_str x)])
   \<and> (config_file s = GoodFile st \<longrightarrow> load_settings e s = s\<lparr>app_settings := st\<rparr>)"
  by (auto simp add: load_settings_def load_failed_def new_effects_def emit_def save_settings_def
      detect_rdp_client_def split: option.splits)

theorem load_settings_cases_witness:
  "rdp_client (app_settings (load_settings (sample_env\<lparr>system := Windows\<rparr>) (init_app NoFile))) = ''mstsc.exe''
   \<and> config_file (load_settings (sample_env\<lparr>system := Windows\<rparr>) (init_app NoFile))
       = GoodFile (default_settings\<lparr>rdp_client := ''mstsc.exe''\<rparr>)
   \<and> app_settings (load_settings sample_env (init_app (BadFile (ValueError ''Expecting value''))))
       = default_settings
   \<and> app_settings (load_settings sample_env (init_app (GoodFile stored_settings))) = stored_settings"
  using load_settings_cases [of "sample_env\<lparr>system := Windows\<rparr>" "init_app NoFile"]
        load_settings_cases [of sample_env "init_app (BadFile (ValueError ''Expecting value''))"
                                "ValueError ''Expecting value''"]
        load_settings_cases [of sample_env "init_app (GoodFile stored_settings)" _ stored_settings]
  by (simp add: sample_env_def init_app_def detect_rdp_client_def json_dump_def default_settings_def
      load_settings_def load_failed_def save_settings_def emit_def)

section \<open>Saving an instance\<close>

lemma current_profile_save_settings [simp]: "current_profile (save_settings e s) = current_profile s"
  by (simp add: save_settings_def emit_def split: option.splits)

lemma app_settings_load_saved_instances [simp]: "app_settings (load_saved_instances s) = app_settings s"
  by (simp add: load_saved_instances_def Let_def)

lemma current_profile_load_saved_instances [simp]: "current_profile (load_saved_instances s) = current_profile s"
  by (simp add: load_saved_instances_def Let_def emit_def)

lemma saved_for_set_saved [simp]: "saved_for p (app_settings (set_saved p rows s)) = rows"
  by (simp add: saved_for_def set_saved_def update_conv')

lemma set_saved_twice [simp]: "set_saved p rows2 (set_saved p rows1 s) = set_saved p rows2 s"
  by (simp add: set_saved_def)

lemma map_of_set_saved_other:
  "q \<noteq> p \<Longrightarrow> map_of (saved_instances (app_settings (set_saved p rows s))) q
     = map_of (saved_instances (app_settings s)) q"
  by (simp add: set_saved_def update_conv')

lemma saved_for_absent: "map_of (saved_instances st) p = None \<Longrightarrow> saved_for p st = []"
  by (simp add: saved_for_def)

lemma save_instance_present:
  assumes "selection s = Some (vals, tags)" "vals \<noteq> []" "current_profile s = Some p" "p \<noteq> []"
    and "PyTuple vals \<in> set (saved_for p (app_settings s))"
  shows "save_instance e s
     = (None, emit [ShowInfo ''Info'' ''This instance is already saved for the current profile.''] s)"
proof (cases "map_of (saved_instances (app_settings s)) p")
  case None
  with assms(5) show ?thesis by (simp add: saved_for_def)
next
  case (Some rows)
  with assms show ?thesis
    by (auto simp add: save_instance_def get_selected_instance_def split: list.splits)
qed

lemma save_instance_absent:
  assumes "selection s = Some (vals, tags)" "vals \<noteq> []" "current_profile s = Some p" "p \<noteq> []"
    and "PyTuple vals \<notin> set (saved_for p (app_settings s))"
  shows "app_settings (snd (save_instance e s))
     = app_settings (set_saved p (saved_for p (app_settings s) @ [PyTuple vals]) s)"
proof (cases "map_of (saved_instances (app_settings s)) p")
  case None
  then have "saved_for p (app_settings s) = []" by (rule saved_for_absent)
  with None assms show ?thesis
    by (auto simp add: save_instance_def get_selected_instance_def Let_def
        split: list.splits sum.splits)
next
  case (Some rows)
  with assms show ?thesis
    by (auto simp add: save_instance_def get_selected_instance_def Let_def
        split: list.splits sum.splits)
qed


lemma save_instance_current_profile:
  assumes "selection s = Some (vals, tags)" and "vals \<noteq> []"
    and "current_profile s = Some p" and "p \<noteq> []"
  shows "current_profile (snd (save_instance e s)) = Some p"
  using assms
  by (auto simp add: save_instance_def get_selected_instance_def Let_def set_saved_def
      split: list.splits sum.splits)

text \<open>
  Within one run of the application the check against the stored rows works: a row that an
  earlier save appended (a tuple) is found again, nothing is stored and the file is not
  written; a row that is not found is appended once to the list of its profile, the lists
  of the other profiles staying as they are; and saving the same row again changes nothing.
\<close>

lemma save_instance_same_session:
  assumes "selection s = Some (vals, tags)" and "vals \<noteq> []"
    and "current_profile s = Some p" and "p \<noteq> []"
  shows "(PyTuple vals \<in> set (saved_for p (app_settings s)) \<longrightarrow>
            saved_instances (app_settings (snd (save_instance e s))) = saved_instances (app_settings s)
            \<and> config_file (snd (save_instance e s)) = config_file s
            \<and> new_effects s (snd (save_instance e s))
                = [ShowInfo ''Info'' ''This instance is already saved for the current profile.''])
       \<and> (PyTuple vals \<notin> set (saved_for p (app_settings s)) \<longrightarrow>
            saved_for p (app_settings (snd (save_instance e s)))
              = saved_for p (app_settings s) @ [PyTuple vals]
            \<and> (\<forall>q. q \<noteq> p \<longrightarrow>
                  map_of (saved_instances (app_settings (snd (save_instance e s)))) q
                    = map_of (saved_instances (app_settings s)) q))
       \<and> saved_instances (app_settings (snd (save_instance e'
              ((snd (save_instance e s))\<lparr>selection := Some (vals, tags')\<rparr>))))
           = saved_instances (app_settings (snd (save_instance e s)))"
proof (intro conjI impI)
  assume present: "PyTuple vals \<in> set (saved_for p (app_settings s))"
  note eq = save_instance_present [OF assms present, of e]
  show "saved_instances (app_settings (snd (save_instance e s))) = saved_instances (app_settings s)"
    by (simp add: eq)
  show "config_file (snd (save_instance e s)) = config_file s"
    by (simp add: eq)
  show "new_effects s (snd (save_instance e s))
          = [ShowInfo ''Info'' ''This instance is already saved for the current profile.'']"
    by (simp add: eq new_effects_def)
next
  assume absent: "PyTuple vals \<notin> set (saved_for p (app_settings s))"
  note eq = save_instance_absent [OF assms absent, of e]
  show "saved_for p (app_settings (snd (save_instance e s)))
          = saved_for p (app_settings s) @ [PyTuple vals]"
    by (simp add: eq)
  show "\<forall>q. q \<noteq> p \<longrightarrow>
          map_of (saved_instances (app_settings (snd (save_instance e s)))) q
            = map_of (saved_instances (app_settings s)) q"
    by (simp add: eq map_of_set_saved_other)
next
  let ?s1 = "snd (save_instance e s)"
  let ?s2 = "?s1\<lparr>selection := Some (vals, tags')\<rparr>"
  have prof: "current_profile ?s1 = Some p"
    using assms by (rule save_instance_current_profile)
  have mem: "PyTuple vals \<in> set (saved_for p (app_settings ?s1))"
  proof (cases "PyTuple vals \<in> set (saved_for p (app_settings s))")
    case True
    then show ?thesis by (simp add: save_instance_present [OF assms True, of e])
  next
    case False
    then show ?thesis by (simp add: save_instance_absent [OF assms False, of e])
  qed
  have "save_instance e' ?s2
     = (None, emit [ShowInfo ''Info'' ''This instance is already saved for the current profile.''] ?s2)"
  proof (rule save_instance_present)
    show "selection ?s2 = Some (vals, tags')" by simp
    show "vals \<noteq> []" by (rule assms(2))
    show "current_profile ?s2 = Some p" using prof by simp
    show "p \<noteq> []" by (rule assms(4))
    show "PyTuple vals \<in> set (saved_for p (app_settings ?s2))" using mem by simp
  qed
  then show "saved_instances (app_settings (snd (save_instance e' ?s2)))
           = saved_instances (app_settings ?s1)"
    by simp
qed

text \<open>
  C10 at the input \<open>restarted_app\<close>: the row is in the list stored for \<open>dev\<close>, as the list
  that \<open>json.load\<close> built; the selected row is a tuple, which Python does not find equal
  to it. The save appends the row a second time and writes the file with both.
\<close>

theorem save_instance_after_reload_duplicates:
  "tree_items restarted_app = [(sample_row, [''dev''])]
   \<and> selection restarted_app = Some (sample_row, [''dev''])
   \<and> current_profile restarted_app = Some ''dev''
   \<and> saved_for ''dev'' (app_settings restarted_app) = [PyList sample_row]
   \<and> saved_for ''dev'' (app_settings (snd (save_instance sample_env restarted_app)))
       = [PyList sample_row, PyTuple sample_row]
   \<and> config_file (snd (save_instance sample_env restarted_app))
       = GoodFile (stored_settings\<lparr>saved_instances := [(''dev'', [PyList sample_row, PyList sample_row])]\<rparr>)"
  by code_simp

section \<open>Launching the client\<close>

lemma new_effects_emit [simp]: "new_effects s (emit es s') = new_effects s s' @ es"
  if "length (trace s) \<le> length (trace s')"
  using that by (simp add: new_effects_def)

lemma new_effects_self [simp]: "new_effects s s = []"
  by (simp add: new_effects_def)

lemma attempts_append [simp]: "attempts (xs @ ys) = attempts xs @ attempts ys"
  by (induction xs rule: attempts.induct) simp_all

lemma starts_with_append [simp]: "starts_with sub (sub @ suf)"
  by (induction sub) simp_all

lemma starts_with_contains: "starts_with sub s \<Longrightarrow> str_contains sub s"
  by (cases s; cases sub) simp_all

lemma str_contains_prefix: "str_contains sub (sub @ suf)"
  by (rule starts_with_contains) simp

lemma str_contains_append: "str_contains sub (pre @ sub @ suf)"
  by (induction pre) (simp_all add: str_contains_prefix)

lemma launch_methods_effects:
  "new_effects s (launch_methods e f port s) =
     (case popen_exn e (method1 f) of
        None \<Rightarrow> [PopenCall (method1 f) None]
      | Some x1 \<Rightarrow>
          [PopenCall (method1 f) (Some x1),
           SetStatus (''Method 1 failed: '' @ exn_str x1 @ '', trying method 2...'')]
          @ (case popen_exn e (method2 f) of
               None \<Rightarrow> [PopenCall (method2 f) None]
             | Some x2 \<Rightarrow>
                 [PopenCall (method2 f) (Some x2),
                  SetStatus (''Method 2 failed: '' @ exn_str x2 @ '', trying method 3...'')]
                 @ (case popen_exn e (method3 port) of
                      None \<Rightarrow> [PopenCall (method3 port) None]
                    | Some x3 \<Rightarrow>
                        [PopenCall (method3 port) (Some x3),
                         SetStatus ''All RDP launch methods failed'',
                         ShowInfo ''Manual Connection Required'' (manual_message port)])))"
  by (simp add: launch_methods_def Popen_def new_effects_def emit_def split: option.splits)

lemma launch_darwin_effects:
  assumes "system e = Darwin"
  shows "launch_effects e iid port s =
     (case makedirs_exn e (darwin_temp_dir e) of
        Some x \<Rightarrow> []
      | None \<Rightarrow>
          (case open_write_exn e (darwin_rdp_file e iid) of
             Some x \<Rightarrow> [SetStatus (''Error creating RDP file: '' @ exn_str x),
                        ShowError ''File Error'' (''Could not create temporary RDP file: '' @ exn_str x)]
           | None \<Rightarrow> new_effects (s\<lparr>files := AList.update (darwin_rdp_file e iid) (rdp_file_text port) (files s)\<rparr>)
                       (launch_methods e (darwin_rdp_file e iid) port
                          (s\<lparr>files := AList.update (darwin_rdp_file e iid) (rdp_file_text port) (files s)\<rparr>))))"
  using assms
  by (simp add: launch_effects_def launch_client_def launch_darwin_def write_rdp_file_def file_error_def
      new_effects_def emit_def Let_def split: option.splits)


text \<open>
  C6, as stated, has every failed attempt recorded and followed by the next one, where an
  attempt fails by a spawn error or by a non-zero exit. The code never reads the exit
  code of what it spawns. Where every command spawns, the launch is the one \<open>Popen\<close> call
  of the first method and nothing else; when that \<open>open\<close> process (process 0 of the launch
  alone, process 1 after the tunnel) then ends with code 1, nothing has been recorded, no
  second method has been tried, and the connection has been reported.
\<close>

theorem nonzero_exit_not_retried_counterexample:
  "launch_effects (darwin_env none_fail) ''i-0001'' 9800 (init_app NoFile)
       = [PopenCall (method1 (darwin_rdp_file (darwin_env none_fail) ''i-0001'')) None]
   \<and> poll (process_exits 0 1 (snd (launch_client (darwin_env none_fail) ''i-0001'' 9800 (init_app NoFile)))) 0
       = Some 1
   \<and> trace (process_exits 0 1 (snd (launch_client (darwin_env none_fail) ''i-0001'' 9800 (init_app NoFile))))
       = [PopenCall (method1 (darwin_rdp_file (darwin_env none_fail) ''i-0001'')) None]
   \<and> attempts (trace (setup_and_connect (darwin_env none_fail) ''i-0001'' 9800 ''dev'' (init_app NoFile)))
       = [(tunnel_command ''i-0001'' 9800 ''dev'', None),
          (method1 (darwin_rdp_file (darwin_env none_fail) ''i-0001''), None)]
   \<and> last (trace (setup_and_connect (darwin_env none_fail) ''i-0001'' 9800 ''dev'' (init_app NoFile)))
       = SetStatus (''Connected to i-0001 on port '' @ str_int 9800)
   \<and> poll (process_exits 1 1
              (setup_and_connect (darwin_env none_fail) ''i-0001'' 9800 ''dev'' (init_app NoFile))) 1
       = Some 1"
  by (simp add: launch_effects_def launch_client_def launch_darwin_def launch_methods_def
      write_rdp_file_def Popen_def new_effects_def emit_def process_exits_def set_status_def poll_def
      setup_and_connect_def tunnel_and_launch_def start_tunnel_def sleep_grace_def
      darwin_env_def none_fail_def sample_env_def init_app_def Let_def)

text \<open>
  C6, amended. On macOS the launch makes at most three \<open>Popen\<close> calls, in the order: the
  descriptor file through \<open>open\<close>, the descriptor file through \<open>open -a\<close> with the client
  application, the \<open>rdp://\<close> address through \<open>open\<close>. An attempt fails only when its \<open>Popen\<close>
  raises: a first method that spawns is the whole launch, whatever its process does
  afterwards. Every call but the last one made has failed to spawn, so nothing runs after
  a spawn. A first or second call that fails to spawn is reported in the status line and
  the next call is made; when the first fails and the second spawns there are exactly these
  two calls; when all three fail, the Manual Connection Required message is shown, and it
  contains \<open>localhost:\<close> followed by the local port.
\<close>

theorem darwin_launch_chain:
  assumes "system e = Darwin"
  shows "length (launch_attempts e iid port s) \<le> 3
    \<and> map fst (launch_attempts e iid port s)
        = take (length (launch_attempts e iid port s))
            [method1 (darwin_rdp_file e iid), method2 (darwin_rdp_file e iid), method3 port]
    \<and> (\<forall>i. Suc i < length (launch_attempts e iid port s) \<longrightarrow>
           snd (launch_attempts e iid port s ! i) \<noteq> None)
    \<and> (makedirs_exn e (darwin_temp_dir e) = None \<and> open_write_exn e (darwin_rdp_file e iid) = None \<longrightarrow>
         (popen_exn e (method1 (darwin_rdp_file e iid)) = None \<longrightarrow>
            launch_effects e iid port s = [PopenCall (method1 (darwin_rdp_file e iid)) None])
         \<and> (popen_exn e (method1 (darwin_rdp_file e iid)) = Some x1 \<longrightarrow>
            take 3 (launch_effects e iid port s)
              = [PopenCall (method1 (darwin_rdp_file e iid)) (Some x1),
                 SetStatus (''Method 1 failed: '' @ exn_str x1 @ '', trying method 2...''),
                 PopenCall (method2 (darwin_rdp_file e iid)) (popen_exn e (method2 (darwin_rdp_file e iid)))])
         \<and> (popen_exn e (method1 (darwin_rdp_file e iid)) = Some x1
              \<and> popen_exn e (method2 (darwin_rdp_file e iid)) = None \<longrightarrow>
            launch_attempts e iid port s
              = [(method1 (darwin_rdp_file e iid), Some x1), (method2 (darwin_rdp_file e iid), None)])
         \<and> (popen_exn e (method1 (darwin_rdp_file e iid)) = Some x1
              \<and> popen_exn e (method2 (darwin_rdp_file e iid)) = Some x2 \<longrightarrow>
            take 5 (launch_effects e iid port s)
              = [PopenCall (method1 (darwin_rdp_file e iid)) (Some x1),
                 SetStatus (''Method 1 failed: '' @ exn_str x1 @ '', trying method 2...''),
                 PopenCall (method2 (darwin_rdp_file e iid)) (Some x2),
                 SetStatus (''Method 2 failed: '' @ exn_str x2 @ '', trying method 3...''),
                 PopenCall (method3 port) (popen_exn e (method3 port))])
         \<and> (popen_exn e (method1 (darwin_rdp_file e iid)) = Some x1
              \<and> popen_exn e (method2 (darwin_rdp_file e iid)) = Some x2
              \<and> popen_exn e (method3 port) = Some x3 \<longrightarrow>
            drop 5 (launch_effects e iid port s)
              = [SetStatus ''All RDP launch methods failed'',
                 ShowInfo ''Manual Connection Required'' (manual_message port)]
            \<and> str_contains (endpoint port) (manual_message port)))"
proof -
  have "manual_message port
          = ''Please open your RDP client manually and connect to '' @ endpoint port @ []"
    by (simp add: manual_message_def)
  then have contains: "str_contains (endpoint port) (manual_message port)"
    by (simp only: str_contains_append)
  show ?thesis
    using contains
    by (cases "makedirs_exn e (darwin_temp_dir e)";
        cases "open_write_exn e (darwin_rdp_file e iid)";
        cases "popen_exn e (method1 (darwin_rdp_file e iid))";
        cases "popen_exn e (method2 (darwin_rdp_file e iid))";
        cases "popen_exn e (method3 port)")
       (simp_all add: launch_attempts_def launch_darwin_effects [OF assms] launch_methods_effects
          nth_Cons' less_Suc_eq)
qed



theorem darwin_launch_chain_witness:
  "system (darwin_env first_fails) = Darwin
   \<and> popen_exn (darwin_env first_fails) (method1 (darwin_rdp_file (darwin_env first_fails) ''i-0001''))
       = Some (OtherException ''no handler'')
   \<and> popen_exn (darwin_env first_fails) (method2 (darwin_rdp_file (darwin_env first_fails) ''i-0001''))
       = None
   \<and> launch_attempts (darwin_env first_fails) ''i-0001'' 9800 (init_app NoFile)
       = [(method1 (darwin_rdp_file (darwin_env first_fails) ''i-0001''), Some (OtherException ''no handler'')),
          (method2 (darwin_rdp_file (darwin_env first_fails) ''i-0001''), None)]
   \<and> system (darwin_env all_fail) = Darwin
   \<and> drop 5 (launch_effects (darwin_env all_fail) ''i-0001'' 9800 (init_app NoFile))
       = [SetStatus ''All RDP launch methods failed'',
          ShowInfo ''Manual Connection Required'' (manual_message 9800)]
   \<and> str_contains (endpoint 9800) (manual_message 9800)
   \<and> system (darwin_env none_fail) = Darwin
   \<and> popen_exn (darwin_env none_fail) (method1 (darwin_rdp_file (darwin_env none_fail) ''i-0001'')) = None
   \<and> launch_effects (darwin_env none_fail) ''i-0001'' 9800 (init_app NoFile)
       = [PopenCall (method1 (darwin_rdp_file (darwin_env none_fail) ''i-0001'')) None]"
proof -
  let ?e = "darwin_env first_fails"
  let ?x = "OtherException ''no handler''"
  have sys: "system ?e = Darwin"
    by (simp add: darwin_env_def)
  have ok: "makedirs_exn ?e (darwin_temp_dir ?e) = None \<and> open_write_exn ?e (darwin_rdp_file ?e ''i-0001'') = None"
    by (simp add: darwin_env_def sample_env_def)
  have p1: "popen_exn ?e (method1 (darwin_rdp_file ?e ''i-0001'')) = Some ?x"
    by (simp add: darwin_env_def sample_env_def first_fails_def method1_def darwin_rdp_file_def
        darwin_temp_dir_def rdp_file_name_def)
  have p2: "popen_exn ?e (method2 (darwin_rdp_file ?e ''i-0001'')) = None"
    by (simp add: darwin_env_def sample_env_def first_fails_def method2_def)
  from darwin_launch_chain [OF sys, of "''i-0001''" 9800 "init_app NoFile" ?x] ok p1 p2
  have two: "launch_attempts ?e ''i-0001'' 9800 (init_app NoFile)
       = [(method1 (darwin_rdp_file ?e ''i-0001''), Some ?x),
          (method2 (darwin_rdp_file ?e ''i-0001''), None)]"
    by blast
  let ?f = "darwin_env all_fail"
  have sys': "system ?f = Darwin"
    by (simp add: darwin_env_def)
  have ok': "makedirs_exn ?f (darwin_temp_dir ?f) = None \<and> open_write_exn ?f (darwin_rdp_file ?f ''i-0001'') = None"
    by (simp add: darwin_env_def sample_env_def)
  have q: "popen_exn ?f c = Some ?x" for c
    by (simp add: darwin_env_def all_fail_def)
  from darwin_launch_chain [OF sys', of "''i-0001''" 9800 "init_app NoFile" ?x ?x ?x] ok' q
  have three: "drop 5 (launch_effects ?f ''i-0001'' 9800 (init_app NoFile))
       = [SetStatus ''All RDP launch methods failed'',
          ShowInfo ''Manual Connection Required'' (manual_message 9800)]
       \<and> str_contains (endpoint 9800) (manual_message 9800)"
    by blast
  let ?g = "darwin_env none_fail"
  have sys'': "system ?g = Darwin"
    by (simp add: darwin_env_def)
  have ok'': "makedirs_exn ?g (darwin_temp_dir ?g) = None \<and> open_write_exn ?g (darwin_rdp_file ?g ''i-0001'') = None"
    by (simp add: darwin_env_def sample_env_def)
  have n: "popen_exn ?g (method1 (darwin_rdp_file ?g ''i-0001'')) = None"
    by (simp add: darwin_env_def none_fail_def)
  from darwin_launch_chain [OF sys'', of "''i-0001''" 9800 "init_app NoFile"] ok'' n
  have one: "launch_effects ?g ''i-0001'' 9800 (init_app NoFile)
       = [PopenCall (method1 (darwin_rdp_file ?g ''i-0001'')) None]"
    by blast
  from sys p1 p2 two sys' three sys'' n one show ?thesis
    by (intro conjI) (simp_all only: simp_thms)
qed

text \<open>
  C7, as stated, gives the \<open>/v:\<close> form to every path that contains xfreerdp. A path that
  contains both names is tested for rdesktop first and gets the plain form.
\<close>

theorem client_argument_both_counterexample:
  "str_contains ''xfreerdp'' ''/opt/rdesktop/bin/xfreerdp''
   \<and> client_argument ''/opt/rdesktop/bin/xfreerdp'' 9800 = ''localhost:9800''
   \<and> client_argument ''/opt/rdesktop/bin/xfreerdp'' 9800 \<noteq> ''/v:localhost:9800''"
  by (simp add: client_argument_def endpoint_def str_int_def str_nat.simps digit_char_def)

text \<open>
  C7, amended. On the remaining platforms the launch makes exactly one \<open>Popen\<close> call, of the
  configured client with one argument: \<open>localhost:port\<close> when the path contains rdesktop,
  \<open>/v:localhost:port\<close> when it contains xfreerdp and not rdesktop, and \<open>localhost:port\<close>
  when it contains neither.
\<close>

theorem linux_single_launch:
  assumes "system e = Linux"
  shows "launch_attempts e iid port s
           = [([rdp_client (app_settings s), client_argument (rdp_client (app_settings s)) port],
               popen_exn e [rdp_client (app_settings s), client_argument (rdp_client (app_settings s)) port])]
    \<and> (str_contains ''rdesktop'' client \<longrightarrow> client_argument client port = ''localhost:'' @ str_int port)
    \<and> (str_contains ''xfreerdp'' client \<and> \<not> str_contains ''rdesktop'' client \<longrightarrow>
          client_argument client port = ''/v:localhost:'' @ str_int port)
    \<and> (\<not> str_contains ''rdesktop'' client \<and> \<not> str_contains ''xfreerdp'' client \<longrightarrow>
          client_argument client port = ''localhost:'' @ str_int port)"
proof -
  have "launch_attempts e iid port s
           = [([rdp_client (app_settings s), client_argument (rdp_client (app_settings s)) port],
               popen_exn e [rdp_client (app_settings s), client_argument (rdp_client (app_settings s)) port])]"
    using assms
    by (simp add: launch_attempts_def launch_effects_def launch_client_def launch_linux_def Popen_def
        new_effects_def emit_def Let_def split: option.splits)
  then show ?thesis
    by (simp add: client_argument_def endpoint_def)
qed

theorem linux_single_launch_witness:
  "system sample_env = Linux
   \<and> launch_attempts sample_env ''i-0001'' 9800 ((init_app NoFile)\<lparr>app_settings := stored_settings\<rparr>)
       = [([''/usr/bin/xfreerdp'', ''/v:localhost:'' @ str_int 9800], None)]
   \<and> client_argument ''/usr/bin/rdesktop'' 9800 = ''localhost:'' @ str_int 9800
   \<and> client_argument ''/usr/bin/remmina'' 9800 = ''localhost:'' @ str_int 9800"
proof -
  let ?s = "(init_app NoFile)\<lparr>app_settings := stored_settings\<rparr>"
  have sys: "system sample_env = Linux"
    by (simp add: sample_env_def)
  have client: "rdp_client (app_settings ?s) = ''/usr/bin/xfreerdp''"
    by (simp add: stored_settings_def)
  have r: "str_contains ''rdesktop'' ''/usr/bin/rdesktop''"
    by simp
  have x: "str_contains ''xfreerdp'' ''/usr/bin/xfreerdp'' \<and> \<not> str_contains ''rdesktop'' ''/usr/bin/xfreerdp''"
    by simp
  have n: "\<not> str_contains ''rdesktop'' ''/usr/bin/remmina'' \<and> \<not> str_contains ''xfreerdp'' ''/usr/bin/remmina''"
    by simp
  have spawn: "popen_exn sample_env c = None" for c
    by (simp add: sample_env_def)
  from linux_single_launch [OF sys, of "''i-0001''" 9800 ?s "''/usr/bin/xfreerdp''"] x
  have "launch_attempts sample_env ''i-0001'' 9800 ?s
          = [([rdp_client (app_settings ?s), client_argument (rdp_client (app_settings ?s)) 9800],
              popen_exn sample_env [rdp_client (app_settings ?s), client_argument (rdp_client (app_settings ?s)) 9800])]
        \<and> client_argument ''/usr/bin/xfreerdp'' 9800 = ''/v:localhost:'' @ str_int 9800"
    by blast
  then have a: "launch_attempts sample_env ''i-0001'' 9800 ?s
          = [([''/usr/bin/xfreerdp'', ''/v:localhost:'' @ str_int 9800], None)]"
    by (simp only: client spawn)
  from linux_single_launch [OF sys, of "''i-0001''" 9800 ?s "''/usr/bin/rdesktop''"] r
  have b: "client_argument ''/usr/bin/rdesktop'' 9800 = ''localhost:'' @ str_int 9800"
    by blast
  from linux_single_launch [OF sys, of "''i-0001''" 9800 ?s "''/usr/bin/remmina''"] n
  have c: "client_argument ''/usr/bin/remmina'' 9800 = ''localhost:'' @ str_int 9800"
    by blast
  from sys a b c show ?thesis by blast
qed

section \<open>Starting the tunnel and checking that it is up\<close>

lemma start_tunnel_ok:
  assumes "popen_exn e (tunnel_command iid port prof) = None"
  shows "start_tunnel e iid port prof s =
    (Inr (length (procs s)),
     sleep_grace e (length (procs s))
       ((emit [SetStatus (''Setting up tunnel to '' @ iid @ '' on port '' @ str_int port
                          @ '' using profile '' @ prof @ ''...''),
               PopenCall (tunnel_command iid port prof) None]
          (s\<lparr>procs := procs s @ [\<lparr>cmd = tunnel_command iid port prof, status = Running\<rparr>]\<rparr>))
        \<lparr>tunnel_process := Some (length (procs s))\<rparr>))"
  using assms by (simp add: start_tunnel_def Popen_def emit_def)

lemma poll_after_start:
  assumes "popen_exn e (tunnel_command iid port prof) = None"
  shows "poll (snd (start_tunnel e iid port prof s)) (length (procs s)) = tunnel_exit e"
  using assms
  by (simp add: start_tunnel_ok sleep_grace_def poll_def set_status_def emit_def split: option.splits)

lemma new_effects_start:
  assumes "popen_exn e (tunnel_command iid port prof) = None"
  shows "new_effects s (snd (start_tunnel e iid port prof s)) =
     [SetStatus (''Setting up tunnel to '' @ iid @ '' on port '' @ str_int port
                 @ '' using profile '' @ prof @ ''...''),
      PopenCall (tunnel_command iid port prof) None, Sleep 2]"
  using assms
  by (simp add: start_tunnel_ok sleep_grace_def set_status_def emit_def new_effects_def split: option.splits)

text \<open>
  C5, as stated, has the diagnostic equal to the text of the error stream. The code strips
  the text: a tunnel that writes \<open>boom\<close> and a newline is reported as \<open>boom\<close>.
\<close>

theorem strip_diagnostic_counterexample:
  "tunnel_exit failing_tunnel_env = Some 1
   \<and> tunnel_stderr failing_tunnel_env = Inr (''boom'' @ [CHR 0x0A])
   \<and> drop 3 (trace (setup_and_connect failing_tunnel_env ''i-0001'' 9800 ''dev'' (init_app NoFile)))
       = [SetStatus ''Tunnel setup failed: boom'', ShowError ''Tunnel Error'' ''boom'']
   \<and> ''boom'' \<noteq> ''boom'' @ [CHR 0x0A]"
  by (simp add: failing_tunnel_env_def sample_env_def init_app_def setup_and_connect_def
      tunnel_and_launch_def start_tunnel_def Popen_def sleep_grace_def set_status_def poll_def emit_def
      strip_def py_isspace_def Let_def)


text \<open>
  C5, amended. When the tunnel process is spawned, the code sleeps two seconds and polls
  it. If it has exited (and its error stream decodes), the status line and the Tunnel Error
  box show the text of the error stream with the surrounding whitespace stripped, the method
  returns, and the only \<open>Popen\<close> call made is the one of the tunnel: no client is launched.
  If it has not exited, the client is launched for the platform from the state so reached,
  and the connection is reported when the launch raises nothing.
\<close>

theorem tunnel_liveness_check:
  assumes "popen_exn e (tunnel_command iid port prof) = None"
  shows "(tunnel_exit e = Some c \<and> tunnel_stderr e = Inr out \<longrightarrow>
            setup_and_connect e iid port prof s
              = emit [SetStatus (''Tunnel setup failed: '' @ strip out),
                      ShowError ''Tunnel Error'' (strip out)]
                  (snd (start_tunnel e iid port prof s))
            \<and> poll (setup_and_connect e iid port prof s) (length (procs s)) = Some c
            \<and> attempts (new_effects s (setup_and_connect e iid port prof s))
                = [(tunnel_command iid port prof, None)])
       \<and> (tunnel_exit e = None \<longrightarrow>
            poll (snd (start_tunnel e iid port prof s)) (length (procs s)) = None
            \<and> tunnel_and_launch e iid port prof s
                = (case launch_client e iid port
                          (emit [SetStatus ''Launching RDP client...''] (snd (start_tunnel e iid port prof s))) of
                     (Some x, s3) \<Rightarrow> (Some x, s3)
                   | (None, s3) \<Rightarrow>
                       (None, emit [SetStatus (''Connected to '' @ iid @ '' on port '' @ str_int port)] s3)))
       \<and> Sleep 2 \<in> set (new_effects s (snd (start_tunnel e iid port prof s)))"
proof -
  define s2 where "s2 = snd (start_tunnel e iid port prof s)"
  have st: "start_tunnel e iid port prof s = (Inr (length (procs s)), s2)"
    by (simp add: s2_def start_tunnel_ok [OF assms])
  have p: "poll s2 (length (procs s)) = tunnel_exit e"
    unfolding s2_def by (rule poll_after_start [OF assms])
  have new: "new_effects s s2 =
     [SetStatus (''Setting up tunnel to '' @ iid @ '' on port '' @ str_int port
                 @ '' using profile '' @ prof @ ''...''),
      PopenCall (tunnel_command iid port prof) None, Sleep 2]"
    unfolding s2_def by (rule new_effects_start [OF assms])
  have len: "length (trace s) \<le> length (trace s2)"
    by (simp add: s2_def start_tunnel_ok [OF assms] sleep_grace_def set_status_def emit_def
        split: option.splits)
  have failed: "setup_and_connect e iid port prof s
              = emit [SetStatus (''Tunnel setup failed: '' @ strip out),
                      ShowError ''Tunnel Error'' (strip out)] s2"
    if "tunnel_exit e = Some c" and "tunnel_stderr e = Inr out"
    using that p by (simp add: setup_and_connect_def tunnel_and_launch_def st Let_def)
  have live: "tunnel_and_launch e iid port prof s
                = (case launch_client e iid port (emit [SetStatus ''Launching RDP client...''] s2) of
                     (Some x, s3) \<Rightarrow> (Some x, s3)
                   | (None, s3) \<Rightarrow>
                       (None, emit [SetStatus (''Connected to '' @ iid @ '' on port '' @ str_int port)] s3))"
    if "tunnel_exit e = None"
    using that p by (simp add: tunnel_and_launch_def st)
  have snd_eq: "snd (start_tunnel e iid port prof s) = s2"
    by (simp add: s2_def)
  show ?thesis
    unfolding snd_eq
    using p new len
    by (auto simp add: failed live)
qed


theorem tunnel_liveness_check_witness:
  "popen_exn failing_tunnel_env (tunnel_command ''i-0001'' 9800 ''dev'') = None
   \<and> tunnel_exit failing_tunnel_env = Some 1
   \<and> tunnel_stderr failing_tunnel_env = Inr (''boom'' @ [CHR 0x0A])
   \<and> attempts (new_effects (init_app NoFile)
        (setup_and_connect failing_tunnel_env ''i-0001'' 9800 ''dev'' (init_app NoFile)))
       = [(tunnel_command ''i-0001'' 9800 ''dev'', None)]
   \<and> poll (setup_and_connect failing_tunnel_env ''i-0001'' 9800 ''dev'' (init_app NoFile))
        (length (procs (init_app NoFile))) = Some 1
   \<and> tunnel_exit sample_env = None
   \<and> poll (snd (start_tunnel sample_env ''i-0001'' 9800 ''dev'' (init_app NoFile)))
        (length (procs (init_app NoFile))) = None"
proof -
  have ok: "popen_exn failing_tunnel_env (tunnel_command ''i-0001'' 9800 ''dev'') = None"
    by (simp add: failing_tunnel_env_def sample_env_def)
  have ex: "tunnel_exit failing_tunnel_env = Some 1 \<and> tunnel_stderr failing_tunnel_env = Inr (''boom'' @ [CHR 0x0A])"
    by (simp add: failing_tunnel_env_def sample_env_def)
  have ok': "popen_exn sample_env (tunnel_command ''i-0001'' 9800 ''dev'') = None"
    by (simp add: sample_env_def)
  have up: "tunnel_exit sample_env = None"
    by (simp add: sample_env_def)
  from tunnel_liveness_check [OF ok, where c = 1 and out = "''boom'' @ [CHR 0x0A]" and s = "init_app NoFile"]
       tunnel_liveness_check [OF ok', where c = 1 and out = "''boom'' @ [CHR 0x0A]" and s = "init_app NoFile"]
       ok ex up
  show ?thesis by blast
qed

section \<open>The tunnel of an earlier connection\<close>

lemma extends_launch_methods: "extends s (launch_methods e f port s)"
  by (auto simp add: extends_def launch_methods_def Popen_def emit_def split: option.splits)

lemma extends_launch_client: "extends s (snd (launch_client e iid port s))"
  by (cases "system e")
     (auto simp add: extends_def launch_client_def launch_windows_def launch_darwin_def launch_linux_def
        launch_methods_def write_rdp_file_def file_error_def Popen_def emit_def Let_def
        split: option.splits)

lemma terminated_append [simp]: "terminated (xs @ ys) = terminated xs @ terminated ys"
  by (induction xs rule: terminated.induct) simp_all

lemma start_tunnel_state:
  assumes "popen_exn e (tunnel_command iid port prof) = None"
  shows "procs (snd (start_tunnel e iid port prof s))
           = procs s @ [\<lparr>cmd = tunnel_command iid port prof,
                          status = (case tunnel_exit e of None \<Rightarrow> Running | Some c \<Rightarrow> Exited c)\<rparr>]"
    and "tunnel_process (snd (start_tunnel e iid port prof s)) = Some (length (procs s))"
    and "trace (snd (start_tunnel e iid port prof s)) = trace s @ new_effects s (snd (start_tunnel e iid port prof s))"
  using assms
  by (simp_all add: start_tunnel_ok sleep_grace_def set_status_def emit_def new_effects_def
      split: option.splits)

lemma cleanup_tunnel_shape:
  assumes "procs s = pre @ \<lparr>cmd = tc, status = st0\<rparr> # ps" and "tunnel_process s = Some (length pre)"
  shows "\<exists>st es.
           procs (snd (cleanup_tunnel e s)) = pre @ \<lparr>cmd = tc, status = st\<rparr> # ps
           \<and> (tunnel_process (snd (cleanup_tunnel e s)) = Some (length pre)
                \<or> tunnel_process (snd (cleanup_tunnel e s)) = None)
           \<and> trace (snd (cleanup_tunnel e s)) = trace s @ es
           \<and> set (terminated es) \<subseteq> {length pre}"
proof (cases "poll s (length pre)")
  case (Some c)
  with assms show ?thesis
    by (simp add: cleanup_tunnel_def)
next
  case None
  show ?thesis
  proof (cases "terminate_exn e")
    case (Some x)
    with None assms show ?thesis
      by (simp add: cleanup_tunnel_def terminate_running emit_def)
  next
    case no_exn: None
    with None assms show ?thesis
      by (cases "terminate_reaped e")
         (simp_all add: cleanup_tunnel_def terminate_running emit_def set_status_def list_update_append)
  qed
qed

lemma handler_shape:
  assumes "tunnel_and_launch e iid port prof s = (r, s1)"
    and "procs s1 = procs s @ \<lparr>cmd = tc, status = st0\<rparr> # ps"
    and "tunnel_process s1 = Some (length (procs s))"
    and "trace s1 = trace s @ es1" and "terminated es1 = []"
  shows "\<exists>st es.
           procs (setup_and_connect e iid port prof s) = procs s @ \<lparr>cmd = tc, status = st\<rparr> # ps
           \<and> (tunnel_process (setup_and_connect e iid port prof s) = Some (length (procs s))
                \<or> tunnel_process (setup_and_connect e iid port prof s) = None)
           \<and> trace (setup_and_connect e iid port prof s) = trace s @ es
           \<and> set (terminated es) \<subseteq> {length (procs s)}"
proof (cases r)
  case None
  with assms show ?thesis
    by (simp add: setup_and_connect_def)
next
  case (Some x)
  show ?thesis
  proof (cases "is_file_not_found x")
    case True
    with Some assms show ?thesis
      by (simp add: setup_and_connect_def emit_def)
  next
    case False
    define s5 where "s5 = emit [SetStatus (''Connection error: '' @ exn_str x),
                               ShowError ''Connection Error'' (exn_str x)] s1"
    have p5: "procs s5 = procs s @ \<lparr>cmd = tc, status = st0\<rparr> # ps"
      and t5: "tunnel_process s5 = Some (length (procs s))"
      and tr5: "trace s5 = trace s @ es1 @ [SetStatus (''Connection error: '' @ exn_str x),
                               ShowError ''Connection Error'' (exn_str x)]"
      using assms by (simp_all add: s5_def emit_def)
    from cleanup_tunnel_shape [OF p5 t5, of e]
    obtain st es where
      c1: "procs (snd (cleanup_tunnel e s5)) = procs s @ \<lparr>cmd = tc, status = st\<rparr> # ps"
      and c2: "tunnel_process (snd (cleanup_tunnel e s5)) = Some (length (procs s))
                \<or> tunnel_process (snd (cleanup_tunnel e s5)) = None"
      and c3: "trace (snd (cleanup_tunnel e s5)) = trace s5 @ es"
      and c4: "set (terminated es) \<subseteq> {length (procs s)}"
      by blast
    have fin: "setup_and_connect e iid port prof s
        = (case fst (cleanup_tunnel e s5) of
             None \<Rightarrow> snd (cleanup_tunnel e s5)
           | Some y \<Rightarrow> emit [Uncaught y] (snd (cleanup_tunnel e s5)))"
      using Some False assms(1)
      by (simp add: setup_and_connect_def s5_def split: prod.splits option.splits)
    show ?thesis
      using c1 c2 c3 c4 tr5 assms(5)
      by (cases "fst (cleanup_tunnel e s5)") (auto simp add: fin emit_def)
  qed
qed


lemma tunnel_and_launch_shape:
  assumes "popen_exn e (tunnel_command iid port prof) = None"
  shows "\<exists>st0 ps es1.
           procs (snd (tunnel_and_launch e iid port prof s))
             = procs s @ \<lparr>cmd = tunnel_command iid port prof, status = st0\<rparr> # ps
           \<and> tunnel_process (snd (tunnel_and_launch e iid port prof s)) = Some (length (procs s))
           \<and> trace (snd (tunnel_and_launch e iid port prof s)) = trace s @ es1
           \<and> terminated es1 = []"
proof -
  define s2 where "s2 = snd (start_tunnel e iid port prof s)"
  define st0 where "st0 = (case tunnel_exit e of None \<Rightarrow> Running | Some c \<Rightarrow> Exited c)"
  have st: "start_tunnel e iid port prof s = (Inr (length (procs s)), s2)"
    by (simp add: s2_def start_tunnel_ok [OF assms])
  have procs2: "procs s2 = procs s @ [\<lparr>cmd = tunnel_command iid port prof, status = st0\<rparr>]"
    unfolding s2_def st0_def by (rule start_tunnel_state [OF assms])
  have tp2: "tunnel_process s2 = Some (length (procs s))"
    unfolding s2_def by (rule start_tunnel_state [OF assms])
  have tr2: "trace s2 = trace s @ new_effects s s2"
    unfolding s2_def by (rule start_tunnel_state [OF assms])
  have new2: "terminated (new_effects s s2) = []"
    unfolding s2_def by (simp add: new_effects_start [OF assms])
  have p: "poll s2 (length (procs s)) = tunnel_exit e"
    unfolding s2_def by (rule poll_after_start [OF assms])
  show ?thesis
  proof (cases "tunnel_exit e")
    case (Some c)
    with p procs2 tp2 tr2 new2 show ?thesis
      by (cases "tunnel_stderr e") (simp_all add: tunnel_and_launch_def st Let_def emit_def)
  next
    case None
    define s3 where "s3 = emit [SetStatus ''Launching RDP client...''] s2"
    obtain r s4 where lc: "launch_client e iid port s3 = (r, s4)"
      by fastforce
    from extends_launch_client [of s3 e iid port] lc
    obtain ps es where procs4: "procs s4 = procs s3 @ ps" and tp4: "tunnel_process s4 = tunnel_process s3"
      and tr4: "trace s4 = trace s3 @ es" and te: "terminated es = []"
      by (auto simp add: extends_def)
    have procs3: "procs s3 = procs s @ [\<lparr>cmd = tunnel_command iid port prof, status = st0\<rparr>]"
      and tp3: "tunnel_process s3 = Some (length (procs s))"
      and tr3: "trace s3 = trace s @ new_effects s s2 @ [SetStatus ''Launching RDP client...'']"
      using procs2 tp2 tr2 by (simp_all add: s3_def emit_def)
    have body: "tunnel_and_launch e iid port prof s
        = (case r of Some x \<Rightarrow> (Some x, s4)
           | None \<Rightarrow> (None, emit [SetStatus (''Connected to '' @ iid @ '' on port '' @ str_int port)] s4))"
      using None p lc by (simp add: tunnel_and_launch_def st s3_def split: option.splits)
    from procs4 tp4 tr4 te procs3 tp3 tr3 new2 show ?thesis
      by (cases r) (simp_all add: body emit_def)
  qed
qed

lemma connect_shape:
  assumes "popen_exn e (tunnel_command iid port prof) = None"
  shows "\<exists>st ps es.
           procs (setup_and_connect e iid port prof s)
             = procs s @ \<lparr>cmd = tunnel_command iid port prof, status = st\<rparr> # ps
           \<and> (tunnel_process (setup_and_connect e iid port prof s) = Some (length (procs s))
                \<or> tunnel_process (setup_and_connect e iid port prof s) = None)
           \<and> trace (setup_and_connect e iid port prof s) = trace s @ es
           \<and> set (terminated es) \<subseteq> {length (procs s)}"
proof -
  from tunnel_and_launch_shape [OF assms, of s]
  obtain st0 ps es1 where
    a: "procs (snd (tunnel_and_launch e iid port prof s))
             = procs s @ \<lparr>cmd = tunnel_command iid port prof, status = st0\<rparr> # ps"
    and b: "tunnel_process (snd (tunnel_and_launch e iid port prof s)) = Some (length (procs s))"
    and c: "trace (snd (tunnel_and_launch e iid port prof s)) = trace s @ es1"
    and d: "terminated es1 = []"
    by blast
  have pair: "tunnel_and_launch e iid port prof s
        = (fst (tunnel_and_launch e iid port prof s), snd (tunnel_and_launch e iid port prof s))"
    by simp
  from handler_shape [OF pair a b c d] show ?thesis
    by blast
qed

text \<open>
  C1, as stated, has the tunnel of an earlier connection terminated before the new one is
  started. After two connections in a row, the first tunnel (process 0) is still running
  beside the second (process 2, the current handle), and nothing was ever terminated.
\<close>

theorem prior_tunnel_still_live_counterexample:
  "tunnel_process connected_once = Some 0
   \<and> poll connected_once 0 = None
   \<and> tunnel_process connected_twice = Some 2
   \<and> poll connected_twice 2 = None
   \<and> poll connected_twice 0 = None
   \<and> terminated (trace connected_twice) = []"
  by (simp add: connected_twice_def connected_once_def sample_env_def init_app_def default_settings_def
      setup_and_connect_def tunnel_and_launch_def start_tunnel_def launch_client_def launch_linux_def
      Popen_def sleep_grace_def poll_def emit_def Let_def)

text \<open>
  C1, amended. When the tunnel of a connection request is spawned, the new process is added
  to the processes and becomes the current handle (or the handle is cleared by the cleanup
  after an unexpected error); every process started before keeps its state, so a tunnel
  that was running is still running; the only process that may be terminated during the
  request is the new one.
\<close>

theorem new_tunnel_leaves_prior:
  assumes "popen_exn e (tunnel_command iid port prof) = None"
  shows "take (length (procs s)) (procs (setup_and_connect e iid port prof s)) = procs s
    \<and> length (procs s) < length (procs (setup_and_connect e iid port prof s))
    \<and> cmd (procs (setup_and_connect e iid port prof s) ! length (procs s)) = tunnel_command iid port prof
    \<and> (tunnel_process (setup_and_connect e iid port prof s) = Some (length (procs s))
         \<or> tunnel_process (setup_and_connect e iid port prof s) = None)
    \<and> set (terminated (new_effects s (setup_and_connect e iid port prof s))) \<subseteq> {length (procs s)}
    \<and> (tunnel_process s = Some old \<and> poll s old = None \<longrightarrow>
          poll (setup_and_connect e iid port prof s) old = None)"
proof -
  from connect_shape [OF assms, of s]
  obtain st ps es where
    procs': "procs (setup_and_connect e iid port prof s)
             = procs s @ \<lparr>cmd = tunnel_command iid port prof, status = st\<rparr> # ps"
    and tp: "tunnel_process (setup_and_connect e iid port prof s) = Some (length (procs s))
                \<or> tunnel_process (setup_and_connect e iid port prof s) = None"
    and tr: "trace (setup_and_connect e iid port prof s) = trace s @ es"
    and te: "set (terminated es) \<subseteq> {length (procs s)}"
    by blast
  have "poll (setup_and_connect e iid port prof s) old = None" if "poll s old = None"
  proof -
    from that have "old < length (procs s)"
      by (simp add: poll_def split: if_splits)
    with that show ?thesis
      by (simp add: poll_def procs' nth_append)
  qed
  with procs' tp tr te show ?thesis
    by (simp add: new_effects_def)
qed

theorem new_tunnel_leaves_prior_witness:
  "popen_exn sample_env (tunnel_command ''i-0002'' 9801 ''dev'') = None
   \<and> tunnel_process connected_once = Some 0 \<and> poll connected_once 0 = None
   \<and> poll (setup_and_connect sample_env ''i-0002'' 9801 ''dev'' connected_once) 0 = None
   \<and> take (length (procs connected_once))
        (procs (setup_and_connect sample_env ''i-0002'' 9801 ''dev'' connected_once))
       = procs connected_once"
proof -
  have ok: "popen_exn sample_env (tunnel_command ''i-0002'' 9801 ''dev'') = None"
    by (simp add: sample_env_def)
  have once: "tunnel_process connected_once = Some 0 \<and> poll connected_once 0 = None"
    by (simp add: connected_once_def sample_env_def init_app_def default_settings_def
        setup_and_connect_def tunnel_and_launch_def start_tunnel_def launch_client_def launch_linux_def
        Popen_def sleep_grace_def poll_def emit_def Let_def)
  from new_tunnel_leaves_prior [OF ok, of connected_once 0] once ok show ?thesis
    by blast
qed

end
